theory Spec2Isabelle
  imports Complex_Main
begin

section \<open>Earth Engine values used by the shoreline scripts\<close>

text \<open>
  The scripts are Earth Engine client programs. Numbers are real numbers (a finite
  floating-point value is one); the classifiers are modelled in exact arithmetic, and the
  threshold estimator and the tiling are also given for any arithmetic that rounds.
  The library operations the scripts call are modelled by their documented meaning:
  \<^item> \<open>ee.Number.divide\<close> returns 0 for a division by 0, which is HOL's \<open>/\<close> on reals;
  \<^item> \<open>ee.Array.slice(0, 0, i)\<close> keeps the first \<open>i\<close> entries (\<open>take i\<close>);
  \<^item> \<open>reduce(ee.Reducer.sum(), [0]).get([0])\<close> is the sum of the entries;
  \<^item> \<open>ee.List.sequence(1, n - 1)\<close> is the list \<open>1, ..., n - 1\<close>, empty when \<open>n < 2\<close>;
  \<^item> \<open>ee.List.reduce(ee.Reducer.max())\<close> is the largest entry, null on the empty list;
  \<^item> \<open>ee.List.indexOf\<close> is the position of the first occurrence, or \<open>-1\<close>;
  \<^item> an element-wise operation on arrays of different lengths makes the evaluation fail;
  \<^item> a null passed where an argument is required makes the evaluation fail.
  A failed evaluation is an \<open>Inl\<close> result.
\<close>

datatype ee_error =
    NullArgument string
  | ShapeMismatch
  | IndexOutOfBounds
  | ReferenceError string

text \<open>The dictionary returned by \<open>ee.Reducer.histogram\<close>: keys \<open>histogram\<close> and \<open>bucketMeans\<close>.\<close>

record hist_dict =
  histogram :: "real list"
  bucketMeans :: "real list"

definition reduce_max :: "real list \<Rightarrow> real option" where
  "reduce_max xs = (case xs of [] \<Rightarrow> None | y # ys \<Rightarrow> Some (fold max ys y))"

definition indexOf :: "'a list \<Rightarrow> 'a \<Rightarrow> int" where
  "indexOf xs x = (if x \<in> set xs then int (length (takeWhile (\<lambda>y. y \<noteq> x) xs)) else - 1)"

definition array_get :: "real list \<Rightarrow> int \<Rightarrow> ee_error + real" where
  \<comment> \<open>\<open>ee.Array.get([k])\<close>; a negative \<open>k\<close> addresses the array from its end\<close>
  "array_get xs k =
     (if 0 \<le> k \<and> k < int (length xs) then Inr (xs ! nat k)
      else if k < 0 \<and> - k \<le> int (length xs) then Inr (xs ! nat (int (length xs) + k))
      else Inl IndexOutOfBounds)"

section \<open>Otsu threshold (the function \<open>otsu\<close> inside every classifier)\<close>

text \<open>
  The same function \<open>otsu\<close> is repeated in \<open>detectWaterFromSAR\<close>, \<open>detectWaterFromOptical\<close>
  and \<open>detectWaterFromLandsat\<close> of every version. \<open>bss_at\<close> is the body of the function
  mapped over \<open>indices\<close>; it closes over \<open>counts\<close>, \<open>means\<close>, \<open>total\<close>, \<open>sum\<close> and \<open>mean\<close>
  (\<open>total\<close> and \<open>sum\<close> are written totalv and sumv: both names are taken in HOL).
  \<open>otsu_bss\<close> is the list \<open>bss\<close>, and \<open>otsu\<close> the lookup of its maximum.
\<close>

definition bss_at :: "real list \<Rightarrow> real list \<Rightarrow> real \<Rightarrow> real \<Rightarrow> real \<Rightarrow> nat \<Rightarrow> real" where
  "bss_at counts means totalv sumv mean i =
     (let aCounts = take i counts;
          aCount = sum_list aCounts;
          aMeans = take i means;
          aMean = sum_list (map2 (*) aMeans aCounts) / aCount;
          bCount = totalv - aCount;
          bMean = (sumv - aCount * aMean) / bCount
      in aCount * (aMean - mean)\<^sup>2 + bCount * (bMean - mean)\<^sup>2)"

definition otsu_bss :: "hist_dict \<Rightarrow> real list" where
  "otsu_bss d =
     (let counts = histogram d;
          means = bucketMeans d;
          size = length means;
          totalv = sum_list counts;
          sumv = sum_list (map2 (*) means counts);
          mean = sumv / totalv;
          indices = [1..<size]
      in map (bss_at counts means totalv sumv mean) indices)"

definition otsu :: "hist_dict option \<Rightarrow> ee_error + real" where
  "otsu histDict =
     (case histDict of
        None \<Rightarrow> Inl (NullArgument ''dictionary'')
      | Some d \<Rightarrow>
          if length (histogram d) \<noteq> length (bucketMeans d) then Inl ShapeMismatch
          else
            (let bss = otsu_bss d
             in case reduce_max bss of
                  None \<Rightarrow> Inl (NullArgument ''element'')
                | Some maxBss \<Rightarrow> array_get (bucketMeans d) (indexOf bss maxBss)))"

text \<open>
  The backend evaluates in floating point, where a sum, a difference, a product, a
  quotient and a square are rounded. Finite floating-point values are real numbers, so an
  arithmetic is given here by its operations on the reals: \<open>exact_arith\<close> rounds nothing, the
  backend's arithmetic rounds each result to a representable value. \<open>num_literal\<close> is the
  value a decimal literal of the script denotes. Comparison and equality of values are
  those of the reals: the values are taken to be finite (in the library a division by 0
  gives 0, not NaN).

  \<open>bss_at_in\<close>, \<open>otsu_bss_in\<close> and \<open>otsu_in\<close> are \<open>otsu\<close> of the scripts evaluated in a given
  arithmetic; \<open>bss_at\<close>, \<open>otsu_bss\<close> and \<open>otsu\<close> above are the same in exact arithmetic.
  \<open>computed_variance\<close> is the entry of \<open>bss\<close> for the split index \<open>i\<close>.
\<close>

record arith =
  num_add :: "real \<Rightarrow> real \<Rightarrow> real"
  num_subtract :: "real \<Rightarrow> real \<Rightarrow> real"
  num_multiply :: "real \<Rightarrow> real \<Rightarrow> real"
  num_divide :: "real \<Rightarrow> real \<Rightarrow> real"
  num_pow2 :: "real \<Rightarrow> real"
  array_sum :: "real list \<Rightarrow> real"
  num_literal :: "real \<Rightarrow> real"

definition exact_arith :: arith where
  "exact_arith =
     \<lparr>num_add = (+), num_subtract = (-), num_multiply = (*), num_divide = (/),
      num_pow2 = (\<lambda>x. x\<^sup>2), array_sum = sum_list, num_literal = (\<lambda>x. x)\<rparr>"

definition bss_at_in ::
  "arith \<Rightarrow> real list \<Rightarrow> real list \<Rightarrow> real \<Rightarrow> real \<Rightarrow> real \<Rightarrow> nat \<Rightarrow> real" where
  "bss_at_in ar counts means totalv sumv mean i =
     (let aCounts = take i counts;
          aCount = array_sum ar aCounts;
          aMeans = take i means;
          aMean = num_divide ar (array_sum ar (map2 (num_multiply ar) aMeans aCounts)) aCount;
          bCount = num_subtract ar totalv aCount;
          bMean = num_divide ar (num_subtract ar sumv (num_multiply ar aCount aMean)) bCount
      in num_add ar
           (num_multiply ar aCount (num_pow2 ar (num_subtract ar aMean mean)))
           (num_multiply ar bCount (num_pow2 ar (num_subtract ar bMean mean))))"

definition otsu_bss_in :: "arith \<Rightarrow> hist_dict \<Rightarrow> real list" where
  "otsu_bss_in ar d =
     (let counts = histogram d;
          means = bucketMeans d;
          size = length means;
          totalv = array_sum ar counts;
          sumv = array_sum ar (map2 (num_multiply ar) means counts);
          mean = num_divide ar sumv totalv;
          indices = [1..<size]
      in map (bss_at_in ar counts means totalv sumv mean) indices)"

definition otsu_in :: "arith \<Rightarrow> hist_dict option \<Rightarrow> ee_error + real" where
  "otsu_in ar histDict =
     (case histDict of
        None \<Rightarrow> Inl (NullArgument ''dictionary'')
      | Some d \<Rightarrow>
          if length (histogram d) \<noteq> length (bucketMeans d) then Inl ShapeMismatch
          else
            (let bss = otsu_bss_in ar d
             in case reduce_max bss of
                  None \<Rightarrow> Inl (NullArgument ''element'')
                | Some maxBss \<Rightarrow> array_get (bucketMeans d) (indexOf bss maxBss)))"

definition computed_variance :: "arith \<Rightarrow> hist_dict \<Rightarrow> nat \<Rightarrow> real" where
  "computed_variance ar d i =
     bss_at_in ar (histogram d) (bucketMeans d) (array_sum ar (histogram d))
       (array_sum ar (map2 (num_multiply ar) (bucketMeans d) (histogram d)))
       (num_divide ar (array_sum ar (map2 (num_multiply ar) (bucketMeans d) (histogram d)))
          (array_sum ar (histogram d))) i"

text \<open>
  The specification's between-class variance of the split at \<open>i\<close>: the buckets are
  partitioned into the below-group \<open>[0, i)\<close> and the above-group \<open>[i, end)\<close>, each with its
  count and weighted mean.
\<close>

definition spec_group_count :: "real list \<Rightarrow> real" where
  "spec_group_count cs = sum_list cs"

definition spec_group_mean :: "real list \<Rightarrow> real list \<Rightarrow> real" where
  "spec_group_mean ms cs = sum_list (map2 (*) ms cs) / sum_list cs"

definition spec_between_class_variance :: "hist_dict \<Rightarrow> nat \<Rightarrow> real" where
  "spec_between_class_variance d i =
     (let global_mean = spec_group_mean (bucketMeans d) (histogram d);
          count_below = spec_group_count (take i (histogram d));
          mean_below = spec_group_mean (take i (bucketMeans d)) (take i (histogram d));
          count_above = spec_group_count (drop i (histogram d));
          mean_above = spec_group_mean (drop i (bucketMeans d)) (drop i (histogram d))
      in count_below * (mean_below - global_mean)\<^sup>2
         + count_above * (mean_above - global_mean)\<^sup>2)"


section \<open>Images and the global state\<close>

text \<open>
  A band is a real value per pixel of the composite's valid-data region; an image maps band
  names to bands (\<open>image.select(name)\<close>). Comparisons give 0/1 bands, as in Earth Engine.
  A masked band carries \<open>None\<close> at masked-out pixels. The source's parameter \<open>image\<close> is
  written \<open>img\<close>, since \<open>image\<close> is a constant of HOL.
\<close>

type_synonym 'p band = "'p \<Rightarrow> real"
type_synonym 'p image = "string \<Rightarrow> 'p band"
type_synonym 'p masked = "'p \<Rightarrow> real option"

definition img_lt :: "'p band \<Rightarrow> real \<Rightarrow> 'p band" where
  "img_lt a t = (\<lambda>p. if a p < t then 1 else 0)"

definition img_gt :: "'p band \<Rightarrow> real \<Rightarrow> 'p band" where
  "img_gt a t = (\<lambda>p. if a p > t then 1 else 0)"

definition img_gte :: "'p band \<Rightarrow> real \<Rightarrow> 'p band" where
  "img_gte a t = (\<lambda>p. if a p \<ge> t then 1 else 0)"

definition img_add :: "'p band \<Rightarrow> 'p band \<Rightarrow> 'p band" where
  "img_add a b = (\<lambda>p. a p + b p)"

definition img_divide :: "'p band \<Rightarrow> 'p band \<Rightarrow> 'p band" where
  "img_divide a b = (\<lambda>p. a p / b p)"

definition const_pow :: "real \<Rightarrow> 'p band \<Rightarrow> 'p band" where
  \<comment> \<open>\<open>ee.Image.constant(c).pow(b)\<close>\<close>
  "const_pow c b = (\<lambda>p. c powr b p)"

definition img_updateMask :: "'p band \<Rightarrow> 'p band \<Rightarrow> 'p masked" where
  "img_updateMask a m = (\<lambda>p. if m p \<noteq> 0 then Some (a p) else None)"

text \<open>The global \<open>state\<close> object of versions 1.0.1, 1.1.0 and 2.0.0 (configuration fields).\<close>

record 'g state =
  aoi :: 'g
  cloudCover :: real
  compositeMethod :: string
  waterIndex :: string
  waterBodySizeThreshold :: real
  smoothingKernelSize :: real
  smoothingIterations :: real
  coastalBuffer :: real
  sarVotesRequired :: real
  useCustomThreshold :: bool
  waterThreshold :: real

definition initial_state :: "'g \<Rightarrow> 'g state" where
  "initial_state g =
     \<lparr>aoi = g, cloudCover = 5, compositeMethod = ''Median'', waterIndex = ''MNDWI'',
      waterBodySizeThreshold = 10, smoothingKernelSize = 2, smoothingIterations = 2,
      coastalBuffer = 1.0, sarVotesRequired = 2, useCustomThreshold = False,
      waterThreshold = 0\<rparr>"

section \<open>Radar classifier: \<open>detectWaterFromSAR\<close>\<close>

text \<open>
  \<open>reduceRegion\<close> stands for the backend's histogram reduction of one band over a geometry
  (null, here \<open>None\<close>, when the region holds no valid pixel).
\<close>

definition getOtsuThreshold ::
  "('g \<Rightarrow> 'p band \<Rightarrow> hist_dict option) \<Rightarrow> ('g, 'z) state_scheme \<Rightarrow> 'p band \<Rightarrow> ee_error + real" where
  "getOtsuThreshold reduceRegion st b = otsu (reduceRegion (aoi st) b)"

definition sar_ratio :: "'p image \<Rightarrow> 'p band" where
  "sar_ratio img =
     (let vvDb = img ''VV'';
          vhDb = img ''VH'';
          vvLinear = const_pow 10 (\<lambda>p. vvDb p / 10);
          vhLinear = const_pow 10 (\<lambda>p. vhDb p / 10)
      in img_divide vvLinear vhLinear)"

text \<open>Versions 1.0.1, 1.1.0 and 2.0.0: the vote count is compared with \<open>state.sarVotesRequired\<close>.\<close>

definition detectWaterFromSAR ::
  "('g \<Rightarrow> 'p band \<Rightarrow> hist_dict option) \<Rightarrow> ('g, 'z) state_scheme \<Rightarrow> 'p image \<Rightarrow> ee_error + 'p masked" where
  "detectWaterFromSAR reduceRegion st img =
     (let vvDb = img ''VV'' in
      case getOtsuThreshold reduceRegion st vvDb of Inl e \<Rightarrow> Inl e | Inr vvThreshold \<Rightarrow>
      let vvWater = img_lt vvDb vvThreshold;
          vhDb = img ''VH'' in
      case getOtsuThreshold reduceRegion st vhDb of Inl e \<Rightarrow> Inl e | Inr vhThreshold \<Rightarrow>
      let vhWater = img_lt vhDb vhThreshold;
          ratio = sar_ratio img in
      case getOtsuThreshold reduceRegion st ratio of Inl e \<Rightarrow> Inl e | Inr ratioThreshold \<Rightarrow>
      let ratioWater = img_gt ratio ratioThreshold;
          waterMask = img_gte (img_add (img_add vvWater vhWater) ratioWater) (sarVotesRequired st)
      in Inr (img_updateMask waterMask waterMask))"

text \<open>Version 1.0.0: the vote count is compared with the constant 1 (\<open>.gt(1)\<close>).\<close>

definition detectWaterFromSAR_100 ::
  "('g \<Rightarrow> 'p band \<Rightarrow> hist_dict option) \<Rightarrow> 'g \<Rightarrow> 'p image \<Rightarrow> ee_error + 'p masked" where
  "detectWaterFromSAR_100 reduceRegion g img =
     (let vvDb = img ''VV'' in
      case otsu (reduceRegion g vvDb) of Inl e \<Rightarrow> Inl e | Inr vvThreshold \<Rightarrow>
      let vvWater = img_lt vvDb vvThreshold;
          vhDb = img ''VH'' in
      case otsu (reduceRegion g vhDb) of Inl e \<Rightarrow> Inl e | Inr vhThreshold \<Rightarrow>
      let vhWater = img_lt vhDb vhThreshold;
          ratio = sar_ratio img in
      case otsu (reduceRegion g ratio) of Inl e \<Rightarrow> Inl e | Inr ratioThreshold \<Rightarrow>
      let ratioWater = img_gt ratio ratioThreshold;
          waterMask = img_gt (img_add (img_add vvWater vhWater) ratioWater) 1
      in Inr (img_updateMask waterMask waterMask))"

text \<open>
  The specification's vote count: the number of the three indicators that hold at a pixel
  (primary band below its threshold, secondary band below its threshold, ratio of the
  linear-scale bands above its threshold).
\<close>

definition sar_votes :: "'p image \<Rightarrow> real \<Rightarrow> real \<Rightarrow> real \<Rightarrow> 'p \<Rightarrow> nat" where
  "sar_votes img vvThreshold vhThreshold ratioThreshold p =
     length (filter id
       [img ''VV'' p < vvThreshold,
        img ''VH'' p < vhThreshold,
        10 powr (img ''VV'' p / 10) / 10 powr (img ''VH'' p / 10) > ratioThreshold])"

section \<open>Optical classifier: \<open>calculateWaterIndex\<close> and \<open>detectWaterFromOptical\<close>\<close>

definition normalizedDifference :: "'p image \<Rightarrow> string \<Rightarrow> string \<Rightarrow> 'p band" where
  "normalizedDifference img a b = (\<lambda>p. (img a p - img b p) / (img a p + img b p))"

definition calculateWaterIndex :: "'p image \<Rightarrow> string \<Rightarrow> 'p band" where
  "calculateWaterIndex img indexName =
     (if indexName = ''Band8'' then img ''B8''
      else if indexName = ''NDWI'' then normalizedDifference img ''B3'' ''B8''
      else if indexName = ''MNDWI'' then normalizedDifference img ''B3'' ''B11''
      else if indexName = ''AWEInsh'' then
        (\<lambda>p. 4 * (img ''B3'' p - img ''B11'' p) - (0.25 * img ''B8'' p + 2.75 * img ''B12'' p))
      else if indexName = ''AWEIsh'' then
        (\<lambda>p. img ''B2'' p + 2.5 * img ''B3'' p - 1.5 * (img ''B8'' p + img ''B11'' p)
              - 0.25 * img ''B12'' p)
      else if indexName = ''SMBWI'' then
        (\<lambda>p. (img ''B2'' p + img ''B3'' p + img ''B4'' p)
              / (img ''B8'' p + img ''B11'' p + img ''B12'' p))
      else if indexName = ''WRI'' then
        (\<lambda>p. (img ''B3'' p + img ''B4'' p) / (img ''B8'' p + img ''B11'' p))
      else if indexName = ''NDWI2'' then normalizedDifference img ''B8'' ''B11''
      else normalizedDifference img ''B3'' ''B11'')"

text \<open>Versions 1.0.1 and 1.1.0: the custom-threshold branch always compares with \<open>gt\<close>.\<close>

definition detectWaterFromOptical ::
  "('g \<Rightarrow> 'p band \<Rightarrow> hist_dict option) \<Rightarrow> ('g, 'z) state_scheme \<Rightarrow> 'p image \<Rightarrow> string
     \<Rightarrow> ee_error + 'p band" where
  "detectWaterFromOptical reduceRegion st img indexName =
     (let waterIndex = calculateWaterIndex img indexName in
      if useCustomThreshold st then Inr (img_gt waterIndex (waterThreshold st))
      else
        case otsu (reduceRegion (aoi st) waterIndex) of Inl e \<Rightarrow> Inl e | Inr threshold \<Rightarrow>
          if indexName = ''Band8'' then Inr (img_lt waterIndex threshold)
          else Inr (img_gt waterIndex threshold))"

text \<open>Version 2.0.0: the custom-threshold branch follows the index name.\<close>

definition detectWaterFromOptical_200 ::
  "('g \<Rightarrow> 'p band \<Rightarrow> hist_dict option) \<Rightarrow> ('g, 'z) state_scheme \<Rightarrow> 'p image \<Rightarrow> string
     \<Rightarrow> ee_error + 'p band" where
  "detectWaterFromOptical_200 reduceRegion st img indexName =
     (let waterIndex = calculateWaterIndex img indexName in
      if useCustomThreshold st then
        (if indexName = ''Band8'' then Inr (img_lt waterIndex (waterThreshold st))
         else Inr (img_gt waterIndex (waterThreshold st)))
      else
        case otsu (reduceRegion (aoi st) waterIndex) of Inl e \<Rightarrow> Inl e | Inr threshold \<Rightarrow>
          if indexName = ''Band8'' then Inr (img_lt waterIndex threshold)
          else Inr (img_gt waterIndex threshold))"

section \<open>Landsat classifier: \<open>detectWaterFromLandsat\<close>\<close>

definition landsat_awei :: "'p image \<Rightarrow> 'p band" where
  "landsat_awei img =
     (\<lambda>p. 4 * (img ''SR_B3'' p - img ''SR_B6'' p)
           - (0.25 * img ''SR_B5'' p + 2.75 * img ''SR_B7'' p))"

text \<open>Versions 1.0.0 to 1.1.0: a local \<open>otsu\<close>; the histogram is taken over the image footprint.\<close>

definition detectWaterFromLandsat ::
  "('g \<Rightarrow> 'p band \<Rightarrow> hist_dict option) \<Rightarrow> 'g \<Rightarrow> 'p image \<Rightarrow> ee_error + 'p band" where
  "detectWaterFromLandsat reduceRegion image_geometry img =
     (let awei = landsat_awei img in
      case otsu (reduceRegion image_geometry awei) of Inl e \<Rightarrow> Inl e | Inr threshold \<Rightarrow>
        Inr (img_gt awei threshold))"

text \<open>
  Version 2.0.0 calls the identifier \<open>otsuThreshold\<close>. A call of an identifier resolves
  against the bindings of the enclosing scopes, here the function's own locals and the
  top-level declarations of the module together with the globals the Code Editor provides;
  an unbound identifier throws a ReferenceError. \<open>impl\<close> stands for the functions the bound
  names denote.
\<close>

definition toplevel_200 :: "string list" where
  "toplevel_200 =
     [''slopeAnalysis'', ''STYLES'', ''ICONS'', ''state'', ''resetState'', ''mainPanel'',
      ''resultsPanel'', ''map'', ''sidebarPanel'', ''helpPanel'', ''statusPanel'',
      ''updateStatus'', ''createInfoTooltip'', ''createSectionHeader'', ''validateDate'',
      ''getAdaptiveScale'', ''detectWaterFromSAR'', ''calculateWaterIndex'',
      ''detectWaterFromOptical'', ''detectWaterFromLandsat'', ''vectorizeDirectly'',
      ''vectorizeWaterMask'', ''displayResults'', ''progressiveShorelineVisualization'',
      ''processCoastalTile'', ''processSentinel2WithProgress'',
      ''processSentinel1WithProgress'', ''processLandsatWithProgress'', ''initializeDrawing'',
      ''showWelcome'', ''showDrawAOI'', ''showMethodSelection'', ''showAdvancedSettings'',
      ''showDateCloudSettings'', ''showSentinel2Options'', ''processImagery'',
      ''processSentinel1'', ''processSentinel2'', ''processLandsat'']"

definition code_editor_globals :: "string list" where
  "code_editor_globals =
     [''ee'', ''ui'', ''Map'', ''Export'', ''Chart'', ''print'', ''require'', ''exports'',
      ''console'', ''Math'', ''Date'', ''isNaN'', ''setTimeout'']"

definition landsat_locals_200 :: "string list" where
  "landsat_locals_200 = [''image'', ''awei'', ''hist'', ''threshold'']"

definition call_identifier ::
  "string list \<Rightarrow> (string \<Rightarrow> 'a \<Rightarrow> ee_error + 'b) \<Rightarrow> string \<Rightarrow> 'a \<Rightarrow> ee_error + 'b" where
  "call_identifier scope impl name arg =
     (if name \<in> set scope then impl name arg else Inl (ReferenceError name))"

definition detectWaterFromLandsat_200 ::
  "(string \<Rightarrow> hist_dict option \<Rightarrow> ee_error + real) \<Rightarrow> ('g \<Rightarrow> 'p band \<Rightarrow> hist_dict option)
     \<Rightarrow> 'g \<Rightarrow> 'p image \<Rightarrow> ee_error + 'p band" where
  "detectWaterFromLandsat_200 impl reduceRegion image_geometry img =
     (let awei = landsat_awei img;
          hist = reduceRegion image_geometry awei
      in case call_identifier (landsat_locals_200 @ toplevel_200 @ code_editor_globals) impl
                ''otsuThreshold'' hist of
           Inl e \<Rightarrow> Inl e
         | Inr threshold \<Rightarrow> Inr (img_gt awei threshold))"

section \<open>Geometries, features and the raster backend\<close>

text \<open>
  Geometries are kept as the expressions the scripts build; what a buffer, a difference or
  an intersection test evaluates to is the backend's business. \<open>ee.Feature(g).geometry()\<close>
  is \<open>g\<close> itself.
\<close>

type_synonym point = "real \<times> real"

datatype geometry =
    Polygon "point list list"
  | LineString "point list"
  | Rectangle real real real real
  | Buffer geometry real
  | Difference geometry geometry

datatype property_value = Num real | Flag bool

record feature =
  feature_geometry :: geometry
  properties :: "string \<rightharpoonup> property_value"

datatype kernel = Circle real

text \<open>
  The raster and vector operations of the compute backend, over an image type \<open>'m\<close>.
  \<open>focal_max\<close> and \<open>focal_min\<close> take the kernel and the iteration count;
  \<open>reduceToVectors\<close> takes geometry, scale, \<open>eightConnected\<close>, \<open>maxPixels\<close> and \<open>tileScale\<close>.
\<close>

record 'm backend =
  connectedPixelCount :: "'m \<Rightarrow> real \<Rightarrow> bool \<Rightarrow> 'm"
  gte :: "'m \<Rightarrow> real \<Rightarrow> 'm"
  updateMask :: "'m \<Rightarrow> 'm \<Rightarrow> 'm"
  focal_max :: "'m \<Rightarrow> kernel \<Rightarrow> real \<Rightarrow> 'm"
  focal_min :: "'m \<Rightarrow> kernel \<Rightarrow> real \<Rightarrow> 'm"
  reduceToVectors :: "'m \<Rightarrow> geometry \<Rightarrow> real \<Rightarrow> bool \<Rightarrow> real \<Rightarrow> real \<Rightarrow> feature list"
  intersects :: "geometry \<Rightarrow> geometry \<Rightarrow> real \<Rightarrow> bool"
  bounds :: "geometry \<Rightarrow> point list"
  area :: "geometry \<Rightarrow> real"

section \<open>Mask cleanup and vectorization: \<open>vectorizeWaterMask\<close>\<close>

text \<open>
  \<open>feat.geometry().coordinates().get(0)\<close>: the outer ring of a polygon, the first entry of
  its list of rings. \<open>reduceToVectors\<close> is asked for polygons; on any other geometry the
  model reports a failure.
\<close>

definition outer_ring :: "feature \<Rightarrow> ee_error + point list" where
  "outer_ring feat =
     (case feature_geometry feat of
        Polygon rings \<Rightarrow> (case rings of [] \<Rightarrow> Inl IndexOutOfBounds | r # rs \<Rightarrow> Inr r)
      | _ \<Rightarrow> Inl ShapeMismatch)"

text \<open>The function mapped over the polygons: ring to line, intersection test, \<open>isCoastal\<close>.\<close>

definition to_coastal_line ::
  "('m, 'z) backend_scheme \<Rightarrow> geometry \<Rightarrow> real \<Rightarrow> feature \<Rightarrow> ee_error + feature" where
  "to_coastal_line be aoiBoundary margin feat =
     (case outer_ring feat of
        Inl e \<Rightarrow> Inl e
      | Inr coords \<Rightarrow>
          (let line = LineString coords;
               coastal = intersects be line aoiBoundary margin
           in Inr \<lparr>feature_geometry = line, properties = [''isCoastal'' \<mapsto> Flag coastal]\<rparr>))"

text \<open>Mapping over a collection fails as a whole when the function fails on one element.\<close>

fun map_collection :: "('a \<Rightarrow> ee_error + 'b) \<Rightarrow> 'a list \<Rightarrow> ee_error + 'b list" where
  "map_collection f [] = Inr []"
| "map_collection f (x # xs) =
     (case f x of
        Inl e \<Rightarrow> Inl e
      | Inr y \<Rightarrow> (case map_collection f xs of Inl e \<Rightarrow> Inl e | Inr ys \<Rightarrow> Inr (y # ys)))"

definition filter_eq :: "string \<Rightarrow> property_value \<Rightarrow> feature list \<Rightarrow> feature list" where
  \<comment> \<open>\<open>ee.Filter.eq(name, value)\<close>\<close>
  "filter_eq name v fs = filter (\<lambda>f. properties f name = Some v) fs"

definition filter_gt :: "string \<Rightarrow> real \<Rightarrow> feature list \<Rightarrow> feature list" where
  \<comment> \<open>\<open>ee.Filter.gt(name, value)\<close>: a feature without the property does not pass\<close>
  "filter_gt name v fs =
     filter (\<lambda>f. case properties f name of Some (Num x) \<Rightarrow> x > v | _ \<Rightarrow> False) fs"

text \<open>Version 2.0.0. The local \<open>cleaned\<close> of \<open>vectorizeWaterMask\<close>.\<close>

definition cleaned_200 :: "('m, 'z) backend_scheme \<Rightarrow> ('g, 'y) state_scheme \<Rightarrow> 'm \<Rightarrow> 'm" where
  "cleaned_200 be st waterMask =
     (let cleaned = connectedPixelCount be waterMask (waterBodySizeThreshold st) True;
          cleaned = updateMask be waterMask (gte be cleaned (waterBodySizeThreshold st));
          kernel = Circle (smoothingKernelSize st)
      in focal_min be (focal_max be cleaned kernel (smoothingIterations st))
           kernel (smoothingIterations st))"

definition aoiBoundary_200 :: "('g, 'y) state_scheme \<Rightarrow> geometry \<Rightarrow> geometry" where
  "aoiBoundary_200 st geometry =
     Difference (Buffer geometry (coastalBuffer st)) (Buffer geometry (- coastalBuffer st))"

text \<open>
  \<open>waterMask\<close> is \<open>None\<close> when the argument is null (\<open>!waterMask\<close>); the function then returns
  the empty collection (the status message it also sets is left out here).
\<close>

definition vectorizeWaterMask_200 ::
  "('m, 'z) backend_scheme \<Rightarrow> ('g, 'y) state_scheme \<Rightarrow> 'm option \<Rightarrow> geometry
     \<Rightarrow> ee_error + feature list" where
  "vectorizeWaterMask_200 be st waterMask geometry =
     (case waterMask of
        None \<Rightarrow> Inr []
      | Some w \<Rightarrow>
          (let cleaned = cleaned_200 be st w;
               aoiBoundary = aoiBoundary_200 st geometry;
               polygons = reduceToVectors be cleaned geometry 5 True (10 ^ 13) 16
           in case map_collection (to_coastal_line be aoiBoundary 0.5) polygons of
                Inl e \<Rightarrow> Inl e
              | Inr lines \<Rightarrow> Inr (filter_eq ''isCoastal'' (Flag True) lines)))"


text \<open>
  Version 1.1.0. The \<open>switch\<close> of \<open>getAdaptiveScale\<close> has no \<open>break\<close>: every case falls
  through to \<open>default\<close>, so \<open>baseScale\<close> ends as 10 for every method.
\<close>

definition getAdaptiveScale_110 ::
  "arith \<Rightarrow> ('m, 'z) backend_scheme \<Rightarrow> geometry \<Rightarrow> string \<Rightarrow> real" where
  "getAdaptiveScale_110 ar be geometry method =
     (let a = num_divide ar (area be geometry) (1000 * 1000);
          baseScale = 10
      in num_add ar (num_multiply ar (if a > 1000 then 1 else 0) 30)
           (num_add ar (num_multiply ar (if a > 100 then 1 else 0) 20) baseScale))"

definition cleaned_110 :: "('m, 'z) backend_scheme \<Rightarrow> ('g, 'y) state_scheme \<Rightarrow> 'm \<Rightarrow> 'm" where
  \<comment> \<open>\<open>focal_max(radius)\<close>: circular kernel in pixels, one iteration (the library defaults)\<close>
  "cleaned_110 be st waterMask =
     focal_min be
       (focal_max be
          (updateMask be waterMask
             (gte be (connectedPixelCount be waterMask (waterBodySizeThreshold st) True)
                (waterBodySizeThreshold st)))
          (Circle (smoothingKernelSize st)) 1)
       (Circle (smoothingKernelSize st)) 1"

definition aoiBoundary_110 :: "arith \<Rightarrow> ('g, 'y) state_scheme \<Rightarrow> geometry \<Rightarrow> geometry" where
  "aoiBoundary_110 ar st geometry =
     Difference (Buffer geometry (num_multiply ar (coastalBuffer st) 1000))
       (Buffer geometry (num_multiply ar (- coastalBuffer st) 1000))"

definition list_get :: "'a list \<Rightarrow> nat \<Rightarrow> ee_error + 'a" where
  "list_get xs k = (if k < length xs then Inr (xs ! k) else Inl IndexOutOfBounds)"

text \<open>
  The tiles of version 1.1.0. Their number and their corners are computed by the backend,
  in its arithmetic; \<open>ee.List.sequence(0, n - 1)\<close> is \<open>0, ..., n - 1\<close>.
\<close>

definition tiles_110 :: "arith \<Rightarrow> real \<Rightarrow> point \<Rightarrow> point \<Rightarrow> geometry list" where
  "tiles_110 ar tileSize lo hi =
     (let xmin = fst lo; ymin = snd lo; xmax = fst hi; ymax = snd hi;
          xTiles = nat \<lceil>num_divide ar (num_subtract ar xmax xmin) tileSize\<rceil>;
          yTiles = nat \<lceil>num_divide ar (num_subtract ar ymax ymin) tileSize\<rceil>
      in concat (map (\<lambda>x. map (\<lambda>y.
           Rectangle (num_add ar xmin (num_multiply ar (real x) tileSize))
                     (num_add ar ymin (num_multiply ar (real y) tileSize))
                     (num_add ar xmin (num_multiply ar (num_add ar (real x) 1) tileSize))
                     (num_add ar ymin (num_multiply ar (num_add ar (real y) 1) tileSize)))
           [0..<yTiles]) [0..<xTiles]))"

text \<open>
  The \<open>try\<close> block of version 1.1.0 only builds the request; a failure of the evaluation is
  the \<open>Inl\<close> result here.
\<close>

definition vectorizeWaterMask_110 ::
  "arith \<Rightarrow> ('m, 'z) backend_scheme \<Rightarrow> ('g, 'y) state_scheme \<Rightarrow> 'm \<Rightarrow> geometry
     \<Rightarrow> ee_error + feature list" where
  "vectorizeWaterMask_110 ar be st waterMask geometry =
     (let scale = getAdaptiveScale_110 ar be geometry ''sentinel2'';
          tileSize = num_literal ar 0.2;
          cleaned = cleaned_110 be st waterMask;
          aoiBoundary = aoiBoundary_110 ar st geometry;
          coords = bounds be geometry
      in case list_get coords 0 of Inl e \<Rightarrow> Inl e | Inr lo \<Rightarrow>
         case list_get coords 2 of Inl e \<Rightarrow> Inl e | Inr hi \<Rightarrow>
         (let tiles = tiles_110 ar tileSize lo hi;
              vectors = concat (map (\<lambda>tile. reduceToVectors be cleaned tile scale False (10 ^ 8) 2) tiles)
          in case map_collection (to_coastal_line be aoiBoundary 2)
                    (filter_gt ''area'' 10000 vectors) of
               Inl e \<Rightarrow> Inl e
             | Inr lines \<Rightarrow> Inr (filter_eq ''isCoastal'' (Flag True) lines)))"

text \<open>
  The specification's cleanup, in its words: removal of small components, then a closing
  (max-filter then min-filter), then an opening (min-filter then max-filter).
\<close>

definition spec_remove_small :: "('m, 'z) backend_scheme \<Rightarrow> real \<Rightarrow> 'm \<Rightarrow> 'm" where
  "spec_remove_small be min_pixels msk =
     updateMask be msk (gte be (connectedPixelCount be msk min_pixels True) min_pixels)"

definition spec_closing :: "('m, 'z) backend_scheme \<Rightarrow> real \<Rightarrow> real \<Rightarrow> 'm \<Rightarrow> 'm" where
  "spec_closing be radius iterations msk =
     focal_min be (focal_max be msk (Circle radius) iterations) (Circle radius) iterations"

definition spec_opening :: "('m, 'z) backend_scheme \<Rightarrow> real \<Rightarrow> real \<Rightarrow> 'm \<Rightarrow> 'm" where
  "spec_opening be radius iterations msk =
     focal_max be (focal_min be msk (Circle radius) iterations) (Circle radius) iterations"

definition spec_cleanup :: "('m, 'z) backend_scheme \<Rightarrow> ('g, 'y) state_scheme \<Rightarrow> 'm \<Rightarrow> 'm" where
  "spec_cleanup be st msk =
     spec_opening be (smoothingKernelSize st) (smoothingIterations st)
       (spec_closing be (smoothingKernelSize st) (smoothingIterations st)
          (spec_remove_small be (waterBodySizeThreshold st) msk))"

text \<open>
  A reference backend on one raster row: an image is the list of its unmasked columns, each
  with its value. The max-filter covers every column within the radius of an unmasked one
  and takes the largest value in reach; the min-filter keeps the columns whose whole
  neighbourhood is unmasked and takes the smallest value there; each is applied
  \<open>iterations\<close> times. It vectorizes nothing.
\<close>

type_synonym row = "(int \<times> real) list"

definition row_offsets :: "kernel \<Rightarrow> int list" where
  "row_offsets k = (case k of Circle r \<Rightarrow> [- \<lfloor>r\<rfloor>..\<lfloor>r\<rfloor>])"

definition row_near :: "kernel \<Rightarrow> row \<Rightarrow> int \<Rightarrow> real list" where
  "row_near k m c = map snd (filter (\<lambda>(q, v). q - c \<in> set (row_offsets k)) m)"

definition row_dilate :: "kernel \<Rightarrow> row \<Rightarrow> row" where
  "row_dilate k m =
     map (\<lambda>c. (c, fold max (row_near k m c) 0))
       (remdups (concat (map (\<lambda>(q, v). map (\<lambda>d. q + d) (row_offsets k)) m)))"

definition row_erode :: "kernel \<Rightarrow> row \<Rightarrow> row" where
  "row_erode k m =
     map (\<lambda>(p, v). (p, fold min (row_near k m p) v))
       (filter (\<lambda>(p, v). list_all (\<lambda>d. map_of m (p + d) \<noteq> None) (row_offsets k)) m)"

definition row_run :: "row \<Rightarrow> int \<Rightarrow> real \<Rightarrow> int \<Rightarrow> nat" where
  \<comment> \<open>the number of consecutive columns after \<open>p\<close> in direction \<open>step\<close> with the value \<open>v\<close>\<close>
  "row_run m p v step =
     length (takeWhile (\<lambda>q. map_of m q = Some v)
               (map (\<lambda>i. p + step * int i) [1..<Suc (length m)]))"

definition row_backend :: "row backend" where
  "row_backend =
     \<lparr>connectedPixelCount =
        (\<lambda>m maxSize eight.
           map (\<lambda>(p, v). (p, min maxSize (real (1 + row_run m p v 1 + row_run m p v (- 1))))) m),
      gte = (\<lambda>m t. map (\<lambda>(p, v). (p, if v \<ge> t then 1 else 0)) m),
      updateMask =
        (\<lambda>m k. filter (\<lambda>(p, v). case map_of k p of Some x \<Rightarrow> x \<noteq> 0 | None \<Rightarrow> False) m),
      focal_max = (\<lambda>m k n. (row_dilate k ^^ nat \<lfloor>n\<rfloor>) m),
      focal_min = (\<lambda>m k n. (row_erode k ^^ nat \<lfloor>n\<rfloor>) m),
      reduceToVectors = (\<lambda>m g scale eight maxPixels tileScale. []),
      intersects = (\<lambda>a b margin. False),
      bounds = (\<lambda>g. []),
      area = (\<lambda>g. 0)\<rparr>"

section \<open>Orchestration: \<open>processImagery\<close> and the per-sensor runs (version 1.1.0)\<close>

text \<open>
  \<open>processSentinel1\<close>, \<open>processSentinel2\<close> and \<open>processLandsat\<close> of version 1.1.0; version
  2.0.0 repeats them unchanged. The record \<open>run_state\<close> adds the remaining fields of the
  global \<open>state\<close>; \<open>ui\<close> holds the widgets a run writes to: the progress panel, the status
  label (message and error flag) and the map's layer names. Strings are byte strings; the
  icons are the UTF-8 bytes of the source's characters.
\<close>

record ('i, 'w, 's) run_state = "geometry state" +
  rawImage :: "'i option"
  results :: "string \<rightharpoonup> 'w \<times> 's"

datatype widget = Label string | Button string

record ui =
  progressPanel :: "widget list"
  statusPanel :: "string \<times> bool"
  mapLayers :: "string list"

definition ICONS_warning :: string where
  "ICONS_warning = [CHR 0xE2, CHR 0x9A, CHR 0xA0, CHR 0xEF, CHR 0xB8, CHR 0x8F]"

definition ICONS_results :: string where
  "ICONS_results = [CHR 0xF0, CHR 0x9F, CHR 0x93, CHR 0x8A]"

fun string_of_nat :: "nat \<Rightarrow> string" where
  "string_of_nat n =
     (if n < 10 then [char_of (48 + n)]
      else string_of_nat (n div 10) @ [char_of (48 + n mod 10)])"

declare string_of_nat.simps [simp del]

definition updateStatus :: "string \<Rightarrow> bool \<Rightarrow> ui \<Rightarrow> ui" where
  "updateStatus message isError u = u\<lparr>statusPanel := (message, isError)\<rparr>"

definition panel_add :: "widget \<Rightarrow> ui \<Rightarrow> ui" where
  "panel_add w u = u\<lparr>progressPanel := progressPanel u @ [w]\<rparr>"

definition panel_clear :: "ui \<Rightarrow> ui" where
  "panel_clear u = u\<lparr>progressPanel := []\<rparr>"

text \<open>
  The collaborators of a run: the imagery catalog (collection, its size, the composites,
  clipping) and the pipeline steps, whose results are requests evaluated by the backend.
\<close>

datatype coll_filter = ListContains string string | PropEq string string | PropLt string real

record ('d, 'c, 'i, 'w, 's) services =
  imageCollection :: "string \<Rightarrow> geometry \<Rightarrow> 'd \<Rightarrow> 'd \<Rightarrow> coll_filter list \<Rightarrow> 'c"
  collection_size :: "'c \<Rightarrow> nat"
  collection_mean :: "'c \<Rightarrow> 'i"
  collection_median :: "'c \<Rightarrow> 'i"
  image_clip :: "'i \<Rightarrow> geometry \<Rightarrow> 'i"
  detectSAR :: "geometry state \<Rightarrow> 'i \<Rightarrow> 'w"
  detectOptical :: "geometry state \<Rightarrow> 'i \<Rightarrow> string \<Rightarrow> 'w"
  detectLandsat :: "'i \<Rightarrow> 'w"
  vectorize :: "geometry state \<Rightarrow> 'w \<Rightarrow> geometry \<Rightarrow> 's"
  mask_clip :: "'w \<Rightarrow> geometry \<Rightarrow> 'w"
  shoreline_clip :: "'s \<Rightarrow> geometry \<Rightarrow> 's"

definition displayResults ::
  "string \<Rightarrow> 'w \<Rightarrow> 's \<Rightarrow> ('i, 'w, 's) run_state \<times> ui \<Rightarrow> ('i, 'w, 's) run_state \<times> ui" where
  "displayResults method water shoreline su =
     (let st = (fst su)\<lparr>results := (results (fst su))(method \<mapsto> (water, shoreline))\<rparr>;
          u = panel_add (Label (ICONS_results @ '' Processing complete!'')) (panel_clear (snd su));
          raw = (if rawImage st = None then []
                 else if method = ''sentinel1'' then [method @ '' Raw SAR (VV)'']
                 else if method = ''sentinel2'' \<or> method = ''landsat'' then [method @ '' True Color'']
                 else []);
          u = u\<lparr>mapLayers := raw @ [method @ '' Water'', method @ '' Shoreline'']\<rparr>
      in (st, updateStatus (''Completed processing '' @ method @ '' imagery'') False u))"

definition processSentinel1 ::
  "('d, 'c, 'i, 'w, 's) services \<Rightarrow> 'd \<Rightarrow> 'd \<Rightarrow> ('i, 'w, 's) run_state \<times> ui
     \<Rightarrow> ('i, 'w, 's) run_state \<times> ui" where
  "processSentinel1 sv startDate endDate su =
     (let st = fst su; u = snd su;
          expandedAOI = Buffer (aoi st) 500;
          collection = imageCollection sv ''COPERNICUS/S1_GRD'' expandedAOI startDate endDate
            [ListContains ''transmitterReceiverPolarisation'' ''VV'',
             ListContains ''transmitterReceiverPolarisation'' ''VH'',
             PropEq ''instrumentMode'' ''IW''];
          count = collection_size sv collection
      in if count = 0 then
           (let u = panel_clear u;
                u = panel_add (Label (ICONS_warning
                      @ '' No Sentinel-1 images found for the selected period.'')) u;
                u = panel_add (Button ''Change Dates'') u
            in (st, updateStatus ''No images found for the selected period'' True u))
         else
           (let u = panel_clear u;
                u = panel_add (Label (''Found '' @ string_of_nat count @ '' Sentinel-1 scenes'')) u;
                u = panel_add (Label ''Creating composite...'') u;
                u = updateStatus (''Processing '' @ string_of_nat count @ '' Sentinel-1 scenes'') False u;
                composite = (if compositeMethod st = ''Mean'' then collection_mean sv collection
                             else collection_median sv collection);
                img = image_clip sv composite expandedAOI;
                st = st\<lparr>rawImage := Some img\<rparr>;
                u = panel_add (Label ''Detecting water bodies...'') u;
                waterMask = detectSAR sv (state.truncate st) img;
                u = panel_add (Label ''Vectorizing shoreline...'') u;
                shoreline = vectorize sv (state.truncate st) waterMask expandedAOI;
                clippedShoreline = shoreline_clip sv shoreline (aoi st)
            in displayResults ''sentinel1'' (mask_clip sv waterMask (aoi st)) clippedShoreline (st, u)))"

definition processSentinel2 ::
  "('d, 'c, 'i, 'w, 's) services \<Rightarrow> 'd \<Rightarrow> 'd \<Rightarrow> ('i, 'w, 's) run_state \<times> ui
     \<Rightarrow> ('i, 'w, 's) run_state \<times> ui" where
  "processSentinel2 sv startDate endDate su =
     (let st = fst su; u = snd su;
          expandedAOI = Buffer (aoi st) 500;
          collection = imageCollection sv ''COPERNICUS/S2'' expandedAOI startDate endDate
            [PropLt ''CLOUDY_PIXEL_PERCENTAGE'' (cloudCover st)];
          count = collection_size sv collection
      in if count = 0 then
           (let u = panel_clear u;
                u = panel_add (Label (ICONS_warning
                      @ '' No Sentinel-2 images found within cloud cover limit.'')) u;
                u = panel_add (Button ''Increase Cloud Cover Limit'') u;
                u = panel_add (Button ''Change Dates'') u
            in (st, updateStatus ''No images found within cloud cover limit'' True u))
         else
           (let u = panel_clear u;
                u = panel_add (Label (''Found '' @ string_of_nat count @ '' Sentinel-2 scenes'')) u;
                u = panel_add (Label ''Creating composite...'') u;
                u = updateStatus (''Processing '' @ string_of_nat count @ '' Sentinel-2 scenes'') False u;
                composite = (if compositeMethod st = ''Mean'' then collection_mean sv collection
                             else collection_median sv collection);
                img = image_clip sv composite expandedAOI;
                st = st\<lparr>rawImage := Some img\<rparr>;
                u = panel_add (Label (''Calculating '' @ waterIndex st @ ''...'')) u;
                waterMask = detectOptical sv (state.truncate st) img (waterIndex st);
                u = panel_add (Label ''Vectorizing shoreline...'') u;
                shoreline = vectorize sv (state.truncate st) waterMask expandedAOI;
                clippedShoreline = shoreline_clip sv shoreline (aoi st)
            in displayResults ''sentinel2'' (mask_clip sv waterMask (aoi st)) clippedShoreline (st, u)))"

definition processLandsat ::
  "('d, 'c, 'i, 'w, 's) services \<Rightarrow> 'd \<Rightarrow> 'd \<Rightarrow> ('i, 'w, 's) run_state \<times> ui
     \<Rightarrow> ('i, 'w, 's) run_state \<times> ui" where
  "processLandsat sv startDate endDate su =
     (let st = fst su; u = snd su;
          expandedAOI = Buffer (aoi st) 500;
          collection = imageCollection sv ''LANDSAT/LC08/C02/T1_L2'' expandedAOI startDate endDate
            [PropLt ''CLOUD_COVER'' (cloudCover st)];
          count = collection_size sv collection
      in if count = 0 then
           (let u = panel_clear u;
                u = panel_add (Label (ICONS_warning
                      @ '' No Landsat images found within cloud cover limit.'')) u;
                u = panel_add (Button ''Increase Cloud Cover Limit'') u;
                u = panel_add (Button ''Change Dates'') u
            in (st, updateStatus ''No images found within cloud cover limit'' True u))
         else
           (let u = panel_clear u;
                u = panel_add (Label (''Found '' @ string_of_nat count @ '' Landsat scenes'')) u;
                u = panel_add (Label ''Creating composite...'') u;
                u = updateStatus (''Processing '' @ string_of_nat count @ '' Landsat scenes'') False u;
                img = image_clip sv (collection_median sv collection) expandedAOI;
                st = st\<lparr>rawImage := Some img\<rparr>;
                u = panel_add (Label ''Detecting water bodies...'') u;
                waterMask = detectLandsat sv img;
                u = panel_add (Label ''Vectorizing shoreline...'') u;
                shoreline = vectorize sv (state.truncate st) waterMask expandedAOI;
                clippedShoreline = shoreline_clip sv shoreline (aoi st)
            in displayResults ''landsat'' (mask_clip sv waterMask (aoi st)) clippedShoreline (st, u)))"

text \<open>
  \<open>processImagery\<close>: the progress panel is created with its two labels, the status is set,
  and the run is dispatched on the method name (no case for any other name). \<open>toUpperCase\<close>
  is JavaScript's string method, taken as given.
\<close>

definition processImagery ::
  "(string \<Rightarrow> string) \<Rightarrow> ('d, 'c, 'i, 'w, 's) services \<Rightarrow> string \<Rightarrow> 'd \<Rightarrow> 'd
     \<Rightarrow> ('i, 'w, 's) run_state \<times> ui \<Rightarrow> ('i, 'w, 's) run_state \<times> ui" where
  "processImagery toUpperCase sv method startDate endDate su =
     (let u = (snd su)\<lparr>progressPanel :=
                 [Label (''Processing '' @ toUpperCase method @ '' imagery...''),
                  Label ''This may take a few minutes. Please wait.'']\<rparr>;
          u = updateStatus (''Processing '' @ method @ '' imagery...'') False u
      in if method = ''sentinel1'' then processSentinel1 sv startDate endDate (fst su, u)
         else if method = ''sentinel2'' then processSentinel2 sv startDate endDate (fst su, u)
         else if method = ''landsat'' then processLandsat sv startDate endDate (fst su, u)
         else (fst su, u))"

text \<open>Version 1.0.1: the run reports through a single label.\<close>

record ui_101 =
  loadingLabel :: string
  mapLayers_101 :: "string list"

definition displayResults_101 ::
  "string \<Rightarrow> 'w \<Rightarrow> 's \<Rightarrow> ('i, 'w, 's) run_state \<times> ui_101 \<Rightarrow> ('i, 'w, 's) run_state \<times> ui_101" where
  "displayResults_101 method water shoreline su =
     (let st = (fst su)\<lparr>results := (results (fst su))(method \<mapsto> (water, shoreline))\<rparr>;
          raw = (if rawImage st = None then []
                 else if method = ''sentinel1'' then [method @ '' Raw SAR (VV)'']
                 else if method = ''sentinel2'' \<or> method = ''landsat'' then [method @ '' True Color'']
                 else [])
      in (st, \<lparr>loadingLabel = ''Processing complete! Showing '' @ method @ '' results.'',
               mapLayers_101 = raw @ [method @ '' Water'', method @ '' Shoreline'']\<rparr>))"

definition processSentinel1_101 ::
  "('d, 'c, 'i, 'w, 's) services \<Rightarrow> 'd \<Rightarrow> 'd \<Rightarrow> ('i, 'w, 's) run_state \<times> ui_101
     \<Rightarrow> ('i, 'w, 's) run_state \<times> ui_101" where
  "processSentinel1_101 sv startDate endDate su =
     (let st = fst su; u = snd su;
          expandedAOI = Buffer (aoi st) 500;
          collection = imageCollection sv ''COPERNICUS/S1_GRD'' expandedAOI startDate endDate
            [ListContains ''transmitterReceiverPolarisation'' ''VV'',
             ListContains ''transmitterReceiverPolarisation'' ''VH'',
             PropEq ''instrumentMode'' ''IW''];
          count = collection_size sv collection
      in if count = 0 then (st, u\<lparr>loadingLabel := ''No Sentinel-1 images found.''\<rparr>)
         else
           (let composite = (if compositeMethod st = ''Mean'' then collection_mean sv collection
                             else collection_median sv collection);
                img = image_clip sv composite expandedAOI;
                st = st\<lparr>rawImage := Some img\<rparr>;
                waterMask = detectSAR sv (state.truncate st) img;
                shoreline = vectorize sv (state.truncate st) waterMask expandedAOI;
                clippedShoreline = shoreline_clip sv shoreline (aoi st)
            in displayResults_101 ''sentinel1'' (mask_clip sv waterMask (aoi st)) clippedShoreline
                 (st, u)))"

section \<open>Auxiliary notions for the statements\<close>

text \<open>
  The outer ring of a polygon feature as a total function, the line feature the vectorizer
  emits for a retained ring, and the features, backends and catalog used as concrete inputs.
\<close>

definition ring_of :: "feature \<Rightarrow> point list" where
  "ring_of feat = (case outer_ring feat of Inl e \<Rightarrow> [] | Inr r \<Rightarrow> r)"

definition coastal_line :: "point list \<Rightarrow> feature" where
  "coastal_line r = \<lparr>feature_geometry = LineString r, properties = [''isCoastal'' \<mapsto> Flag True]\<rparr>"

definition has_outer_ring :: "feature \<Rightarrow> bool" where
  "has_outer_ring feat = (case outer_ring feat of Inl e \<Rightarrow> False | Inr r \<Rightarrow> True)"


definition water_block :: feature where
  \<comment> \<open>a square block of water pixels in a corner of the unit square, as vectorized\<close>
  "water_block = \<lparr>feature_geometry = Polygon [[(0, 0), (0.5, 0), (0.5, 0.5), (0, 0.5), (0, 0)]],
                   properties = [''count'' \<mapsto> Num 50, ''label'' \<mapsto> Num 1]\<rparr>"


definition demo_backend :: "feature \<Rightarrow> row backend" where
  "demo_backend feat =
     row_backend\<lparr>reduceToVectors := (\<lambda>m g scale eight maxPixels tileScale. [feat]),
                 intersects := (\<lambda>a b margin. True),
                 bounds := (\<lambda>g. [(0, 0), (1, 0), (1, 1), (0, 1), (0, 0)])\<rparr>"

definition radar_gap_catalog :: "(unit, string, unit, unit, unit) services" where
  \<comment> \<open>a catalog with three scenes for every source but Sentinel-1, which has none\<close>
  "radar_gap_catalog =
     \<lparr>imageCollection = (\<lambda>source g s e filters. source),
      collection_size = (\<lambda>c. if c = ''COPERNICUS/S1_GRD'' then 0 else 3),
      collection_mean = (\<lambda>c. ()),
      collection_median = (\<lambda>c. ()),
      image_clip = (\<lambda>i g. ()),
      detectSAR = (\<lambda>st i. ()),
      detectOptical = (\<lambda>st i n. ()),
      detectLandsat = (\<lambda>i. ()),
      vectorize = (\<lambda>st w g. ()),
      mask_clip = (\<lambda>w g. ()),
      shoreline_clip = (\<lambda>s g. ())\<rparr>"

definition fresh_run :: "(unit, unit, unit) run_state" where
  "fresh_run = state.extend (initial_state (Polygon [[(0, 0), (1, 0), (1, 1), (0, 0)]]))
                 (run_state.fields None Map.empty)"

definition idle_ui :: ui where
  "idle_ui = \<lparr>progressPanel = [], statusPanel = (''Ready'', False), mapLayers = []\<rparr>"

section \<open>Properties of the threshold estimator\<close>

lemma weighted_sum_split:
  "sum_list (map2 (*) ms cs)
     = sum_list (map2 (*) (take i ms) (take i cs)) + sum_list (map2 (*) (drop i ms) (drop i cs))"
proof -
  have "map2 (*) ms cs = map2 (*) (take i ms) (take i cs) @ map2 (*) (drop i ms) (drop i cs)"
    by (simp add: take_zip [symmetric] drop_zip [symmetric] take_map [symmetric] drop_map [symmetric])
  then show ?thesis
    by (metis sum_list_append)
qed

lemma weighted_sum_zero:
  assumes "\<forall>c\<in>set cs. (0::real) \<le> c" and "sum_list cs = 0"
  shows "sum_list (map2 (*) ms cs) = 0"
proof -
  have "\<forall>c\<in>set cs. c = 0"
    using assms by (simp add: sum_list_nonneg_eq_0_iff)
  then have "map2 (*) ms cs = map (\<lambda>p. 0) (zip ms cs)"
    by (auto dest: set_zip_rightD)
  moreover have "sum_list (map (\<lambda>p. 0::real) (zip ms cs)) = 0"
    by (induction "zip ms cs") simp_all
  ultimately show ?thesis
    by (simp only:)
qed

lemma bss_at_is_variance:
  assumes nonneg: "\<forall>c\<in>set (histogram d). 0 \<le> c"
  shows "bss_at (histogram d) (bucketMeans d) (sum_list (histogram d))
           (sum_list (map2 (*) (bucketMeans d) (histogram d)))
           (sum_list (map2 (*) (bucketMeans d) (histogram d)) / sum_list (histogram d)) i
         = spec_between_class_variance d i"
proof -
  let ?cs = "histogram d" and ?ms = "bucketMeans d"
  let ?A = "sum_list (map2 (*) (take i ?ms) (take i ?cs))"
  let ?B = "sum_list (map2 (*) (drop i ?ms) (drop i ?cs))"
  have tot: "sum_list ?cs - sum_list (take i ?cs) = sum_list (drop i ?cs)"
    by (metis add_diff_cancel_left' append_take_drop_id sum_list_append)
  have below: "sum_list (take i ?cs) * (?A / sum_list (take i ?cs)) = ?A"
  proof (cases "sum_list (take i ?cs) = 0")
    case True
    have "\<forall>c\<in>set (take i ?cs). 0 \<le> c"
      using nonneg by (auto dest: in_set_takeD)
    then have "?A = 0"
      using True by (rule weighted_sum_zero)
    then show ?thesis by simp
  next
    case False
    then show ?thesis by simp
  qed
  have above: "sum_list (map2 (*) ?ms ?cs) - ?A = ?B"
    using weighted_sum_split [of ?ms ?cs i] by simp
  show ?thesis
    unfolding bss_at_def spec_between_class_variance_def spec_group_mean_def spec_group_count_def Let_def
      below above tot ..
qed

lemma otsu_bss_nth:
  assumes "\<forall>c\<in>set (histogram d). 0 \<le> c" and "k + 1 < length (bucketMeans d)"
  shows "otsu_bss d ! k = spec_between_class_variance d (k + 1)"
  using assms by (simp add: otsu_bss_def Let_def bss_at_is_variance)

lemma length_otsu_bss: "length (otsu_bss d) = length (bucketMeans d) - 1"
  by (simp add: otsu_bss_def Let_def)

lemma reduce_max_greatest:
  assumes "xs \<noteq> []"
  shows "\<exists>m. reduce_max xs = Some m \<and> m \<in> set xs \<and> (\<forall>x\<in>set xs. x \<le> m)"
proof -
  obtain y ys where xs: "xs = y # ys"
    using assms by (cases xs) auto
  have eq: "fold max ys y = Max (set (y # ys))"
    by (rule Max.set_eq_fold [symmetric])
  have "Max (set (y # ys)) \<in> set (y # ys)"
    by (rule Max_in) auto
  moreover have "\<forall>x\<in>set (y # ys). x \<le> Max (set (y # ys))"
    by (auto intro: Max_ge)
  ultimately show ?thesis
    unfolding xs reduce_max_def using eq by auto
qed

lemma indexOf_first:
  assumes "x \<in> set xs"
  shows "\<exists>k<length xs. indexOf xs x = int k \<and> xs ! k = x \<and> (\<forall>j<k. xs ! j \<noteq> x)"
proof -
  let ?k = "length (takeWhile (\<lambda>y. y \<noteq> x) xs)"
  have "takeWhile (\<lambda>y. y \<noteq> x) xs \<noteq> xs"
    using assms by (auto simp: takeWhile_eq_all_conv)
  then have "?k \<noteq> length xs"
    by (metis takeWhile_eq_take take_all order_refl)
  then have lt: "?k < length xs"
    using length_takeWhile_le [of "\<lambda>y. y \<noteq> x" xs] by simp
  have hit: "xs ! ?k = x"
    using nth_length_takeWhile [OF lt] by simp
  have before: "\<forall>j<?k. xs ! j \<noteq> x"
    by (metis (mono_tags, lifting) nth_mem set_takeWhileD takeWhile_nth)
  show ?thesis
    using assms lt hit before by (auto simp: indexOf_def)
qed

lemma array_get_nth: "k < length xs \<Longrightarrow> array_get xs (int k) = Inr (xs ! k)"
  by (simp add: array_get_def)

lemma otsu_position:
  assumes len: "length (histogram d) = length (bucketMeans d)"
    and two: "2 \<le> length (bucketMeans d)"
  shows "\<exists>k. k < length (otsu_bss d) \<and> (\<forall>x\<in>set (otsu_bss d). x \<le> otsu_bss d ! k) \<and>
             (\<forall>j<k. otsu_bss d ! j \<noteq> otsu_bss d ! k) \<and> otsu (Some d) = Inr (bucketMeans d ! k)"
proof -
  let ?bss = "otsu_bss d"
  have ne: "?bss \<noteq> []"
    using two length_otsu_bss [of d] by (cases ?bss) auto
  from reduce_max_greatest [OF ne] obtain m where
    m: "reduce_max ?bss = Some m" "m \<in> set ?bss" "\<forall>x\<in>set ?bss. x \<le> m"
    by blast
  from indexOf_first [OF m(2)] obtain k where
    k: "k < length ?bss" "indexOf ?bss m = int k" "?bss ! k = m" "\<forall>j<k. ?bss ! j \<noteq> m"
    by blast
  have "k < length (bucketMeans d)"
    using k(1) length_otsu_bss [of d] by simp
  then have "otsu (Some d) = Inr (bucketMeans d ! k)"
    using len m(1) k(2) by (simp add: otsu_def Let_def array_get_nth)
  then show ?thesis
    using k m(3) by auto
qed

lemma length_otsu_bss_in: "length (otsu_bss_in ar d) = length (bucketMeans d) - 1"
  by (simp add: otsu_bss_in_def Let_def)

lemma otsu_bss_in_nth:
  assumes "k + 1 < length (bucketMeans d)"
  shows "otsu_bss_in ar d ! k = computed_variance ar d (k + 1)"
  using assms by (simp add: otsu_bss_in_def computed_variance_def Let_def)

lemma otsu_in_position:
  assumes len: "length (histogram d) = length (bucketMeans d)"
    and two: "2 \<le> length (bucketMeans d)"
  shows "\<exists>k. k < length (otsu_bss_in ar d) \<and>
             (\<forall>x\<in>set (otsu_bss_in ar d). x \<le> otsu_bss_in ar d ! k) \<and>
             (\<forall>j<k. otsu_bss_in ar d ! j \<noteq> otsu_bss_in ar d ! k) \<and>
             otsu_in ar (Some d) = Inr (bucketMeans d ! k)"
proof -
  let ?bss = "otsu_bss_in ar d"
  have ne: "?bss \<noteq> []"
    using two length_otsu_bss_in [of ar d] by (cases ?bss) auto
  from reduce_max_greatest [OF ne] obtain m where
    m: "reduce_max ?bss = Some m" "m \<in> set ?bss" "\<forall>x\<in>set ?bss. x \<le> m"
    by blast
  from indexOf_first [OF m(2)] obtain k where
    k: "k < length ?bss" "indexOf ?bss m = int k" "?bss ! k = m" "\<forall>j<k. ?bss ! j \<noteq> m"
    by blast
  have "k < length (bucketMeans d)"
    using k(1) length_otsu_bss_in [of ar d] by simp
  then have "otsu_in ar (Some d) = Inr (bucketMeans d ! k)"
    using len m(1) k(2) by (simp add: otsu_in_def Let_def array_get_nth)
  then show ?thesis
    using k m(3) by auto
qed

text \<open>In exact arithmetic the estimator is \<open>otsu\<close>, and what it computes for a split of a
  histogram with non-negative counts is the specification's between-class variance.\<close>

lemma bss_at_in_exact: "bss_at_in exact_arith = bss_at"
  by (simp add: fun_eq_iff bss_at_in_def bss_at_def exact_arith_def Let_def)

lemma otsu_bss_in_exact: "otsu_bss_in exact_arith d = otsu_bss d"
  unfolding otsu_bss_in_def otsu_bss_def bss_at_in_exact
  by (simp add: exact_arith_def Let_def)

lemma otsu_in_exact: "otsu_in exact_arith h = otsu h"
  by (cases h) (simp_all add: otsu_in_def otsu_def otsu_bss_in_exact)

lemma exact_variance_is_spec:
  assumes "\<forall>c\<in>set (histogram d). 0 \<le> c"
  shows "computed_variance exact_arith d i = spec_between_class_variance d i"
proof -
  have "computed_variance exact_arith d i
          = bss_at (histogram d) (bucketMeans d) (sum_list (histogram d))
              (sum_list (map2 (*) (bucketMeans d) (histogram d)))
              (sum_list (map2 (*) (bucketMeans d) (histogram d)) / sum_list (histogram d)) i"
    unfolding computed_variance_def bss_at_in_exact by (simp add: exact_arith_def)
  then show ?thesis
    using assms by (simp add: bss_at_is_variance)
qed

text \<open>
  An arithmetic that rounds: every quotient is cut to three decimals. At counts
  \<open>[1, 2, 1]\<close> and means \<open>[0, 1, 2]\<close> the exact variances of the two splits are equal and
  \<open>otsu\<close> returns the mean 0; with the rounded quotients the variance of split 2 comes out
  larger and the estimator returns the mean 1.
\<close>

lemma rounding_breaks_a_tie:
  "otsu (Some \<lparr>histogram = [1, 2, 1], bucketMeans = [0, 1, 2]\<rparr>) = Inr 0 \<and>
   otsu_in (exact_arith\<lparr>num_divide := (\<lambda>x y. real_of_int \<lfloor>x / y * 1000\<rfloor> / 1000)\<rparr>)
     (Some \<lparr>histogram = [1, 2, 1], bucketMeans = [0, 1, 2]\<rparr>) = Inr 1"
  by (simp add: otsu_def otsu_bss_def bss_at_def otsu_in_def otsu_bss_in_def bss_at_in_def
      exact_arith_def reduce_max_def indexOf_def array_get_def Let_def upt_rec power2_eq_square)

text \<open>
  Claim C1, as amended. In whatever arithmetic it is evaluated, for a histogram with at
  least two buckets the estimator computes a variance for every interior split
  \<open>1 \<le> i < bucket count\<close>, selects the first split \<open>i\<close> whose computed variance is maximal,
  and returns the bucket mean at position \<open>i - 1\<close>: the mean of the last bucket of the
  below-group, since the position found in the variance list is used unchanged as the
  position in the array of bucket means. In exact arithmetic, for non-negative counts, the
  computed variance is the between-class variance of the specification.
\<close>

theorem otsu_returns_mean_below_first_maximal_split:
  assumes len: "length (histogram d) = length (bucketMeans d)"
    and two: "2 \<le> length (bucketMeans d)"
  shows "(\<exists>i. 1 \<le> i \<and> i < length (bucketMeans d) \<and>
            (\<forall>j. 1 \<le> j \<and> j < length (bucketMeans d) \<longrightarrow>
                   computed_variance ar d j \<le> computed_variance ar d i) \<and>
            (\<forall>j. 1 \<le> j \<and> j < i \<longrightarrow> computed_variance ar d j < computed_variance ar d i) \<and>
            otsu_in ar (Some d) = Inr (bucketMeans d ! (i - 1))) \<and>
         ((\<forall>c\<in>set (histogram d). 0 \<le> c) \<longrightarrow>
            (\<forall>j. computed_variance exact_arith d j = spec_between_class_variance d j))"
proof -
  let ?n = "length (bucketMeans d)"
  let ?v = "computed_variance ar d"
  from otsu_in_position [OF len two] obtain k where
    k: "k < length (otsu_bss_in ar d)" "\<forall>x\<in>set (otsu_bss_in ar d). x \<le> otsu_bss_in ar d ! k"
       "\<forall>j<k. otsu_bss_in ar d ! j \<noteq> otsu_bss_in ar d ! k"
       "otsu_in ar (Some d) = Inr (bucketMeans d ! k)"
    by blast
  have kn: "k + 1 < ?n"
    using k(1) length_otsu_bss_in [of ar d] by simp
  have var: "\<And>j. j + 1 < ?n \<Longrightarrow> otsu_bss_in ar d ! j = ?v (j + 1)"
    by (simp add: otsu_bss_in_nth)
  have le: "?v j \<le> ?v (k + 1)" if j: "1 \<le> j" "j < ?n" for j
  proof -
    have "j - 1 < length (otsu_bss_in ar d)"
      using j length_otsu_bss_in [of ar d] by simp
    then have "otsu_bss_in ar d ! (j - 1) \<le> otsu_bss_in ar d ! k"
      using k(2) nth_mem by blast
    then show ?thesis
      using var [of "j - 1"] var [of k] j kn by simp
  qed
  have less: "?v j < ?v (k + 1)" if j: "1 \<le> j" "j < k + 1" for j
  proof -
    have "otsu_bss_in ar d ! (j - 1) \<noteq> otsu_bss_in ar d ! k"
      using k(3) j by simp
    then have "?v j \<noteq> ?v (k + 1)"
      using var [of "j - 1"] var [of k] j kn by simp
    moreover have "?v j \<le> ?v (k + 1)"
      using le [of j] j kn by simp
    ultimately show ?thesis by simp
  qed
  have first: "\<exists>i. 1 \<le> i \<and> i < ?n \<and> (\<forall>j. 1 \<le> j \<and> j < ?n \<longrightarrow> ?v j \<le> ?v i) \<and>
            (\<forall>j. 1 \<le> j \<and> j < i \<longrightarrow> ?v j < ?v i) \<and>
            otsu_in ar (Some d) = Inr (bucketMeans d ! (i - 1))"
    using kn le less k(4) by (intro exI [of _ "k + 1"]) simp
  show ?thesis
    using first exact_variance_is_spec [of d] by blast
qed

theorem otsu_returns_mean_below_first_maximal_split_witness:
  "length (histogram \<lparr>histogram = [1, 2, 1], bucketMeans = [0, 1, 2]\<rparr>) = 3 \<and>
   (otsu_in (exact_arith\<lparr>num_divide := (\<lambda>x y. real_of_int \<lfloor>x / y * 1000\<rfloor> / 1000)\<rparr>)
      (Some \<lparr>histogram = [1, 2, 1], bucketMeans = [0, 1, 2]\<rparr>) = Inr 0 \<or>
    otsu_in (exact_arith\<lparr>num_divide := (\<lambda>x y. real_of_int \<lfloor>x / y * 1000\<rfloor> / 1000)\<rparr>)
      (Some \<lparr>histogram = [1, 2, 1], bucketMeans = [0, 1, 2]\<rparr>) = Inr 1) \<and>
   computed_variance exact_arith \<lparr>histogram = [1, 2, 1], bucketMeans = [0, 1, 2]\<rparr> 1
     = spec_between_class_variance \<lparr>histogram = [1, 2, 1], bucketMeans = [0, 1, 2]\<rparr> 1"
proof -
  let ?d = "\<lparr>histogram = [1, 2, 1], bucketMeans = [0, 1, 2 :: real]\<rparr>"
  let ?ar = "exact_arith\<lparr>num_divide := (\<lambda>x y. real_of_int \<lfloor>x / y * 1000\<rfloor> / 1000)\<rparr>"
  have h1: "length (histogram ?d) = length (bucketMeans ?d)" by simp
  have h2: "2 \<le> length (bucketMeans ?d)" by simp
  have h3: "\<forall>c\<in>set (histogram ?d). 0 \<le> c" by simp
  from otsu_returns_mean_below_first_maximal_split [OF h1 h2, of ?ar] h3
  obtain i where "1 \<le> i" "i < length (bucketMeans ?d)"
      "otsu_in ?ar (Some ?d) = Inr (bucketMeans ?d ! (i - 1))"
    and spec: "computed_variance exact_arith ?d 1 = spec_between_class_variance ?d 1"
    by blast
  then have i: "1 \<le> i" "i < 3" "otsu_in ?ar (Some ?d) = Inr ([0, 1, 2] ! (i - 1))"
    by simp_all
  then have "i = 1 \<or> i = 2"
    by auto
  then show ?thesis
    using i(3) spec by auto
qed

text \<open>
  Claim C1 as stated fails. With counts \<open>[1, 1, 1]\<close> and bucket means \<open>[0, 1, 10]\<close> the
  interior splits are 1 and 2, the variance is larger at split 2, and the bucket mean at
  index 2 is 10; \<open>otsu\<close> returns 1, the bucket mean at index 1.
\<close>

theorem otsu_bucket_mean_counterexample:
  "spec_between_class_variance \<lparr>histogram = [1, 1, 1], bucketMeans = [0, 1, 10]\<rparr> 1
     < spec_between_class_variance \<lparr>histogram = [1, 1, 1], bucketMeans = [0, 1, 10]\<rparr> 2 \<and>
   bucketMeans \<lparr>histogram = [1, 1, 1], bucketMeans = [0, 1, 10]\<rparr> ! 2 = 10 \<and>
   otsu (Some \<lparr>histogram = [1, 1, 1], bucketMeans = [0, 1, 10]\<rparr>) = Inr 1"
  by (simp add: spec_between_class_variance_def spec_group_mean_def spec_group_count_def otsu_def otsu_bss_def
      bss_at_def reduce_max_def indexOf_def array_get_def Let_def upt_rec power2_eq_square)

section \<open>Properties of the radar classifier\<close>

lemma sar_water_iff:
  assumes vv: "otsu (reduceRegion (aoi st) (img ''VV'')) = Inr vvT"
    and vh: "otsu (reduceRegion (aoi st) (img ''VH'')) = Inr vhT"
    and r: "otsu (reduceRegion (aoi st) (sar_ratio img)) = Inr rT"
  shows "detectWaterFromSAR reduceRegion st img =
           Inr (\<lambda>p. if sarVotesRequired st \<le> real (sar_votes img vvT vhT rT p) then Some 1 else None)"
  using assms
  by (auto simp: detectWaterFromSAR_def getOtsuThreshold_def Let_def img_updateMask_def
      img_gte_def img_add_def img_lt_def img_gt_def sar_votes_def sar_ratio_def const_pow_def
      img_divide_def fun_eq_iff)

lemma sar_thresholds:
  assumes "detectWaterFromSAR reduceRegion st img = Inr w"
  shows "\<exists>vvT vhT rT. otsu (reduceRegion (aoi st) (img ''VV'')) = Inr vvT \<and>
           otsu (reduceRegion (aoi st) (img ''VH'')) = Inr vhT \<and>
           otsu (reduceRegion (aoi st) (sar_ratio img)) = Inr rT"
  using assms
  by (auto simp: detectWaterFromSAR_def getOtsuThreshold_def Let_def split: sum.splits)

text \<open>
  Version 1.0.0 has no vote setting: its fixed test \<open>.gt(1)\<close> is the configurable
  classifier at two votes, the default of \<open>sarVotesRequired\<close>.
\<close>

lemma sar_100_is_two_votes:
  "detectWaterFromSAR_100 reduceRegion (aoi st) img
     = detectWaterFromSAR reduceRegion (st\<lparr>sarVotesRequired := 2\<rparr>) img"
  by (auto simp: detectWaterFromSAR_100_def detectWaterFromSAR_def getOtsuThreshold_def Let_def
      img_updateMask_def img_gte_def img_add_def img_lt_def img_gt_def fun_eq_iff
      split: sum.splits)



text \<open>
  Claim C9. For the same raster, whenever the classifier returns a mask with three votes
  required it returns one with one vote required, and every pixel that is water in the
  former is water in the latter.
\<close>

theorem sar_vote_threshold_monotone:
  assumes "detectWaterFromSAR reduceRegion (st\<lparr>sarVotesRequired := 3\<rparr>) img = Inr w3"
  shows "\<exists>w1. detectWaterFromSAR reduceRegion (st\<lparr>sarVotesRequired := 1\<rparr>) img = Inr w1 \<and>
           {p. w3 p = Some 1} \<subseteq> {p. w1 p = Some 1}"
proof -
  from sar_thresholds [OF assms] obtain vvT vhT rT where
    t: "otsu (reduceRegion (aoi st) (img ''VV'')) = Inr vvT"
       "otsu (reduceRegion (aoi st) (img ''VH'')) = Inr vhT"
       "otsu (reduceRegion (aoi st) (sar_ratio img)) = Inr rT"
    by auto
  have w3: "w3 = (\<lambda>p. if 3 \<le> real (sar_votes img vvT vhT rT p) then Some 1 else None)"
    using sar_water_iff [of reduceRegion "st\<lparr>sarVotesRequired := 3\<rparr>" img vvT vhT rT] t assms
    by simp
  have w1: "detectWaterFromSAR reduceRegion (st\<lparr>sarVotesRequired := 1\<rparr>) img
              = Inr (\<lambda>p. if 1 \<le> real (sar_votes img vvT vhT rT p) then Some 1 else None)"
    using sar_water_iff [of reduceRegion "st\<lparr>sarVotesRequired := 1\<rparr>" img vvT vhT rT] t
    by simp
  show ?thesis
    unfolding w1 w3 by (auto split: if_splits)
qed

theorem sar_vote_threshold_monotone_witness:
  "detectWaterFromSAR (\<lambda>g b. Some \<lparr>histogram = [1, 1], bucketMeans = [0, 1]\<rparr>)
     ((initial_state ())\<lparr>sarVotesRequired := 3\<rparr>) (\<lambda>b p. - 1) = Inr (\<lambda>p::unit. Some 1) \<and>
   (\<exists>w1. detectWaterFromSAR (\<lambda>g b. Some \<lparr>histogram = [1, 1], bucketMeans = [0, 1]\<rparr>)
           ((initial_state ())\<lparr>sarVotesRequired := 1\<rparr>) (\<lambda>b p. - 1) = Inr w1 \<and>
         w1 () = Some 1)"
proof -
  let ?rr = "\<lambda>(g::unit) (b::unit band). Some \<lparr>histogram = [1, 1], bucketMeans = [0, 1]\<rparr>"
  let ?img = "\<lambda>(b::string) (p::unit). - 1 :: real"
  have o: "otsu (Some \<lparr>histogram = [1, 1], bucketMeans = [0, 1]\<rparr>) = Inr 0"
    by (simp add: otsu_def otsu_bss_def bss_at_def reduce_max_def indexOf_def array_get_def
      Let_def upt_rec)
  have w3: "detectWaterFromSAR ?rr ((initial_state ())\<lparr>sarVotesRequired := 3\<rparr>) ?img
              = Inr (\<lambda>p. Some 1)"
    using o
    by (simp add: detectWaterFromSAR_def getOtsuThreshold_def Let_def img_updateMask_def
      img_gte_def img_add_def img_lt_def img_gt_def sar_ratio_def const_pow_def img_divide_def
      initial_state_def)
  from sar_vote_threshold_monotone [of ?rr "initial_state ()" ?img "\<lambda>p. Some 1"] w3
  obtain w1 where w1: "detectWaterFromSAR ?rr ((initial_state ())\<lparr>sarVotesRequired := 1\<rparr>) ?img = Inr w1"
    "{p. (\<lambda>p::unit. Some (1::real)) p = Some 1} \<subseteq> {p. w1 p = Some 1}"
    by auto
  have "() \<in> {p. (\<lambda>p::unit. Some (1::real)) p = Some 1}"
    by simp
  then have "w1 () = Some 1"
    using w1(2) by blast
  then show ?thesis
    using w3 w1(1) by blast
qed

section \<open>Properties of the optical classifier\<close>

text \<open>Version 2.0.0 applies the sign rule of the claim on both paths.\<close>

lemma optical_200_sign_rule:
  assumes "detectWaterFromOptical_200 reduceRegion st img indexName = Inr w"
  shows "\<exists>t. (if useCustomThreshold st then t = waterThreshold st
              else otsu (reduceRegion (aoi st) (calculateWaterIndex img indexName)) = Inr t) \<and>
           (\<forall>p. w p = 1 \<longleftrightarrow>
              (if indexName = ''Band8'' then calculateWaterIndex img indexName p < t
               else calculateWaterIndex img indexName p > t))"
  using assms
  by (auto simp: detectWaterFromOptical_200_def Let_def img_lt_def img_gt_def
      split: if_splits sum.splits)

text \<open>
  Claim C3, at the input where version 1.1.0 departs from it: custom threshold 0.1, index
  \<open>Band8\<close>, every pixel at 0.05. The pixel is below the threshold, so it is water by the
  rule and by version 2.0.0 (value 1); version 1.1.0 compares with \<open>gt\<close> and returns 0.
\<close>

theorem optical_custom_threshold_band8:
  "detectWaterFromOptical reduceRegion
     ((initial_state g)\<lparr>useCustomThreshold := True, waterThreshold := 0.1\<rparr>)
     (\<lambda>b p. 0.05) ''Band8'' = Inr (\<lambda>p. 0) \<and>
   detectWaterFromOptical_200 reduceRegion
     ((initial_state g)\<lparr>useCustomThreshold := True, waterThreshold := 0.1\<rparr>)
     (\<lambda>b p. 0.05) ''Band8'' = Inr (\<lambda>p. 1)"
  by (simp add: detectWaterFromOptical_def detectWaterFromOptical_200_def initial_state_def
      calculateWaterIndex_def img_gt_def img_lt_def Let_def)

section \<open>The Landsat classifier of version 2.0.0\<close>

text \<open>
  Claim C10. In version 2.0.0 \<open>detectWaterFromLandsat\<close> fails on every image with a
  ReferenceError for \<open>otsuThreshold\<close>, whatever the bound names denote: the identifier is
  bound neither locally, nor at the top level of the module, nor by the Code Editor.
\<close>

theorem landsat_200_reference_error:
  "detectWaterFromLandsat_200 impl reduceRegion image_geometry img
     = Inl (ReferenceError ''otsuThreshold'')"
  by (simp add: detectWaterFromLandsat_200_def call_identifier_def Let_def
      landsat_locals_200_def toplevel_200_def code_editor_globals_def)

section \<open>Degenerate histograms\<close>

lemma zero_counts:
  assumes "\<forall>c\<in>set cs. (0::real) \<le> c" and "sum_list cs = 0"
  shows "sum_list (take i cs) = 0"
proof -
  have "\<forall>c\<in>set cs. c = 0"
    using assms by (simp add: sum_list_nonneg_eq_0_iff)
  then have "\<forall>c\<in>set (take i cs). c = 0"
    by (auto dest: in_set_takeD)
  then have "take i cs = map (\<lambda>c. 0) (take i cs)"
    by (simp add: map_idI)
  moreover have "sum_list (map (\<lambda>c. 0::real) (take i cs)) = 0"
    by simp
  ultimately show ?thesis
    by (simp only:)
qed

lemma otsu_bss_zero_total:
  assumes "\<forall>c\<in>set (histogram d). 0 \<le> c" and "sum_list (histogram d) = 0"
    and "k < length (otsu_bss d)"
  shows "otsu_bss d ! k = 0"
  using assms zero_counts [of "histogram d"]
  by (simp add: otsu_bss_def bss_at_def Let_def)

lemma otsu_zero_total:
  assumes len: "length (histogram d) = length (bucketMeans d)"
    and two: "2 \<le> length (bucketMeans d)"
    and nonneg: "\<forall>c\<in>set (histogram d). 0 \<le> c"
    and zero: "sum_list (histogram d) = 0"
  shows "otsu (Some d) = Inr (bucketMeans d ! 0)"
proof -
  from otsu_position [OF len two] obtain k where
    k: "k < length (otsu_bss d)" "\<forall>j<k. otsu_bss d ! j \<noteq> otsu_bss d ! k"
       "otsu (Some d) = Inr (bucketMeans d ! k)"
    by blast
  have "k = 0"
  proof (rule ccontr)
    assume "k \<noteq> 0"
    then have "0 < k" by simp
    then have "otsu_bss d ! 0 \<noteq> otsu_bss d ! k"
      using k(2) by blast
    moreover have "0 < length (otsu_bss d)"
      using k(1) by (cases "otsu_bss d") auto
    then have "otsu_bss d ! 0 = 0"
      by (rule otsu_bss_zero_total [OF nonneg zero])
    moreover have "otsu_bss d ! k = 0"
      using k(1) by (rule otsu_bss_zero_total [OF nonneg zero])
    ultimately show False by simp
  qed
  then show ?thesis
    using k(3) by simp
qed

lemma otsu_few_buckets:
  assumes "length (histogram d) = length (bucketMeans d)" and "length (bucketMeans d) < 2"
  shows "otsu (Some d) = Inl (NullArgument ''element'')"
proof -
  have "otsu_bss d = []"
    using assms(2) length_otsu_bss [of d] by simp
  then show ?thesis
    using assms(1) by (simp add: otsu_def reduce_max_def Let_def)
qed

text \<open>
  Claim C4, as amended. The estimator checks neither the bucket count nor the total and
  builds no error value of its own. A missing histogram and a histogram with fewer than two
  buckets make the evaluation fail with the library's error for a null argument, and each
  classifier hands the failure of its threshold to its caller unchanged. A histogram with
  at least two buckets whose non-negative counts sum to zero does not fail: the estimator
  returns its first bucket mean.
\<close>

theorem degenerate_histogram_outcomes:
  "otsu None = Inl (NullArgument ''dictionary'') \<and>
   (length (histogram d1) = length (bucketMeans d1) \<and> length (bucketMeans d1) < 2 \<longrightarrow>
      otsu (Some d1) = Inl (NullArgument ''element'')) \<and>
   (length (histogram d2) = length (bucketMeans d2) \<and> 2 \<le> length (bucketMeans d2) \<and>
    (\<forall>c\<in>set (histogram d2). 0 \<le> c) \<and> sum_list (histogram d2) = 0 \<longrightarrow>
      otsu (Some d2) = Inr (bucketMeans d2 ! 0)) \<and>
   (otsu (reduceRegion (aoi st) (img ''VV'')) = Inl e \<or>
    otsu (reduceRegion (aoi st) (img ''VH'')) = Inl e \<or>
    otsu (reduceRegion (aoi st) (sar_ratio img)) = Inl e \<longrightarrow>
      (\<exists>e'. detectWaterFromSAR reduceRegion st img = Inl e')) \<and>
   (otsu (reduceRegion (aoi st) (img ''VV'')) = Inl e \<longrightarrow>
      detectWaterFromSAR reduceRegion st img = Inl e) \<and>
   (\<not> useCustomThreshold st \<and>
    otsu (reduceRegion (aoi st) (calculateWaterIndex img indexName)) = Inl e \<longrightarrow>
      detectWaterFromOptical reduceRegion st img indexName = Inl e) \<and>
   (otsu (reduceRegion image_geometry (landsat_awei img)) = Inl e \<longrightarrow>
      detectWaterFromLandsat reduceRegion image_geometry img = Inl e)"
proof -
  have a: "otsu None = Inl (NullArgument ''dictionary'')"
    by (simp add: otsu_def)
  have b: "otsu (reduceRegion (aoi st) (img ''VV'')) = Inl e \<longrightarrow>
      detectWaterFromSAR reduceRegion st img = Inl e"
    by (simp add: detectWaterFromSAR_def getOtsuThreshold_def Let_def)
  have b': "otsu (reduceRegion (aoi st) (img ''VV'')) = Inl e \<or>
    otsu (reduceRegion (aoi st) (img ''VH'')) = Inl e \<or>
    otsu (reduceRegion (aoi st) (sar_ratio img)) = Inl e \<longrightarrow>
      (\<exists>e'. detectWaterFromSAR reduceRegion st img = Inl e')"
    by (auto simp: detectWaterFromSAR_def getOtsuThreshold_def Let_def split: sum.splits)
  have c: "\<not> useCustomThreshold st \<and>
    otsu (reduceRegion (aoi st) (calculateWaterIndex img indexName)) = Inl e \<longrightarrow>
      detectWaterFromOptical reduceRegion st img indexName = Inl e"
    by (simp add: detectWaterFromOptical_def Let_def)
  have d: "otsu (reduceRegion image_geometry (landsat_awei img)) = Inl e \<longrightarrow>
      detectWaterFromLandsat reduceRegion image_geometry img = Inl e"
    by (simp add: detectWaterFromLandsat_def Let_def)
  show ?thesis
    using a b b' c d otsu_few_buckets [of d1] otsu_zero_total [of d2] by blast
qed

theorem degenerate_histogram_outcomes_witness:
  "otsu (Some \<lparr>histogram = [5], bucketMeans = [1]\<rparr>) = Inl (NullArgument ''element'') \<and>
   otsu (Some \<lparr>histogram = [0, 0], bucketMeans = [1, 2]\<rparr>) = Inr 1 \<and>
   detectWaterFromSAR (\<lambda>g b. None) (initial_state ()) (\<lambda>b p. 0 :: real)
     = (Inl (NullArgument ''dictionary'') :: ee_error + unit masked) \<and>
   detectWaterFromOptical (\<lambda>g b. None) (initial_state ()) (\<lambda>b p. 0 :: real) ''MNDWI''
     = (Inl (NullArgument ''dictionary'') :: ee_error + unit band) \<and>
   detectWaterFromLandsat (\<lambda>g b. None) () (\<lambda>b p. 0 :: real)
     = (Inl (NullArgument ''dictionary'') :: ee_error + unit band)"
proof -
  let ?rr = "\<lambda>(g::unit) (b::unit band). None :: hist_dict option"
  let ?img = "\<lambda>(b::string) (p::unit). 0 :: real"
  have n: "otsu None = Inl (NullArgument ''dictionary'')"
    by (simp add: otsu_def)
  have u: "\<not> useCustomThreshold (initial_state ())"
    by (simp add: initial_state_def)
  from degenerate_histogram_outcomes
         [of "\<lparr>histogram = [5], bucketMeans = [1]\<rparr>"
             "\<lparr>histogram = [0, 0], bucketMeans = [1, 2]\<rparr>"
             ?rr "initial_state ()" ?img "NullArgument ''dictionary''" "''MNDWI''" "()"]
  show ?thesis
    using n u by simp
qed

text \<open>
  Claim C4 as stated fails. The counts \<open>[0, 0]\<close> sum to zero, and the estimator returns the
  threshold 1 instead of failing.
\<close>

theorem zero_total_counterexample:
  "sum_list (histogram \<lparr>histogram = [0, 0], bucketMeans = [1, 2]\<rparr>) = 0 \<and>
   otsu (Some \<lparr>histogram = [0, 0], bucketMeans = [1, 2]\<rparr>) = Inr 1"
  by (simp add: otsu_def otsu_bss_def bss_at_def reduce_max_def indexOf_def array_get_def
      Let_def upt_rec)

section \<open>Properties of the mask cleanup\<close>

text \<open>
  Claim C5, as amended. The cleanup first removes the pixels whose 8-connected component is
  smaller than \<open>waterBodySizeThreshold\<close> and only then smooths, and the smoothing is a closing
  with a circular kernel of radius \<open>smoothingKernelSize\<close>: the max-filter, then the
  min-filter, each with \<open>smoothingIterations\<close> iterations in version 2.0.0 and one
  iteration in version 1.1.0. No opening follows.
\<close>

theorem cleanup_is_removal_then_closing:
  "cleaned_200 be st w =
     spec_closing be (smoothingKernelSize st) (smoothingIterations st)
       (spec_remove_small be (waterBodySizeThreshold st) w) \<and>
   cleaned_110 be st w =
     spec_closing be (smoothingKernelSize st) 1 (spec_remove_small be (waterBodySizeThreshold st) w)"
  by (simp add: cleaned_200_def cleaned_110_def spec_closing_def spec_remove_small_def Let_def)

text \<open>
  Claim C5 as stated fails. On one raster row, with minimum size 5, radius 3 and one
  iteration, a run of five water columns survives the cleanup of the code, while a closing
  followed by an opening removes it.
\<close>

theorem cleanup_opening_counterexample:
  "cleaned_200 row_backend
     ((initial_state ())\<lparr>waterBodySizeThreshold := 5, smoothingKernelSize := 3,
        smoothingIterations := 1\<rparr>)
     [(0, 1), (1, 1), (2, 1), (3, 1), (4, 1)] = [(0, 1), (1, 1), (2, 1), (3, 1), (4, 1)] \<and>
   spec_cleanup row_backend
     ((initial_state ())\<lparr>waterBodySizeThreshold := 5, smoothingKernelSize := 3,
        smoothingIterations := 1\<rparr>)
     [(0, 1), (1, 1), (2, 1), (3, 1), (4, 1)] = []"
  by code_simp

section \<open>Properties of the vectorizer and the coastal filter\<close>

lemma map_collection_total:
  assumes "\<forall>x\<in>set xs. f x = Inr (g x)"
  shows "map_collection f xs = Inr (map g xs)"
  using assms by (induction xs) simp_all

lemma to_coastal_line_ring:
  assumes "has_outer_ring feat"
  shows "to_coastal_line be b margin feat =
           Inr \<lparr>feature_geometry = LineString (ring_of feat),
                properties = [''isCoastal'' \<mapsto> Flag (intersects be (LineString (ring_of feat)) b margin)]\<rparr>"
  using assms
  by (auto simp: to_coastal_line_def has_outer_ring_def ring_of_def Let_def split: sum.splits)

lemma coastal_lines_of_polygons:
  assumes "\<forall>f\<in>set polys. has_outer_ring f"
  shows "(case map_collection (to_coastal_line be b margin) polys of
            Inl e \<Rightarrow> Inl e
          | Inr lines \<Rightarrow> Inr (filter_eq ''isCoastal'' (Flag True) lines))
         = Inr (map coastal_line
                  (filter (\<lambda>r. intersects be (LineString r) b margin) (map ring_of polys)))"
proof -
  let ?g = "\<lambda>feat. \<lparr>feature_geometry = LineString (ring_of feat),
                properties = [''isCoastal'' \<mapsto> Flag (intersects be (LineString (ring_of feat)) b margin)]\<rparr>"
  have m: "map_collection (to_coastal_line be b margin) polys = Inr (map ?g polys)"
    using assms by (intro map_collection_total) (simp add: to_coastal_line_ring)
  have "filter_eq ''isCoastal'' (Flag True) (map ?g polys)
          = map coastal_line (filter (\<lambda>r. intersects be (LineString r) b margin) (map ring_of polys))"
    by (induction polys) (auto simp: filter_eq_def coastal_line_def fun_eq_iff)
  then show ?thesis
    using m by simp
qed

text \<open>
  Version 2.0.0 does what claim C6 says: the corridor is the buffer of the geometry by
  \<open>coastalBuffer\<close> minus its buffer by the negated distance, and exactly the outer-ring lines
  that intersect it within the margin 0.5 are retained.
\<close>

lemma coastal_filter_200_keeps_intersecting_lines:
  assumes "\<forall>f\<in>set (reduceToVectors be (cleaned_200 be st w) geometry 5 True (10 ^ 13) 16).
             has_outer_ring f"
  shows "vectorizeWaterMask_200 be st (Some w) geometry =
      Inr (map coastal_line
             (filter (\<lambda>r. intersects be (LineString r)
                        (Difference (Buffer geometry (coastalBuffer st))
                                    (Buffer geometry (- coastalBuffer st))) 0.5)
                (map ring_of (reduceToVectors be (cleaned_200 be st w) geometry 5 True (10 ^ 13) 16))))"
  using assms coastal_lines_of_polygons
          [of "reduceToVectors be (cleaned_200 be st w) geometry 5 True (10 ^ 13) 16" be
              "aoiBoundary_200 st geometry" "0.5"]
  by (simp add: vectorizeWaterMask_200_def Let_def aoiBoundary_200_def)

lemma bounds_corners:
  assumes "3 \<le> length xs"
  shows "list_get xs 0 = Inr (xs ! 0)" and "list_get xs 2 = Inr (xs ! 2)"
  using assms by (cases xs; simp add: list_get_def)+

lemma filter_gt_absent:
  assumes "\<forall>f\<in>set fs. properties f name = None"
  shows "filter_gt name v fs = []"
  using assms by (induction fs) (simp_all add: filter_gt_def)

text \<open>
  Claim C6, where version 1.1.0 departs from it. Before the intersection test
  \<open>vectorizeWaterMask\<close> of version 1.1.0 keeps only the polygons whose property \<open>area\<close> is
  above 10000. When the polygons of the backend carry no such property (\<open>reduceToVectors\<close>
  sets none, and nothing else in the script does), the shoreline is empty in whatever
  arithmetic the tiles are computed, whether or not a line intersects the corridor.
\<close>

theorem vectorize_110_discards_every_polygon_without_area:
  assumes b: "3 \<le> length (bounds be geometry)"
    and noarea: "\<forall>tile. \<forall>f\<in>set (reduceToVectors be (cleaned_110 be st w) tile
                     (getAdaptiveScale_110 ar be geometry ''sentinel2'') False (10 ^ 8) 2).
                   properties f ''area'' = None"
  shows "vectorizeWaterMask_110 ar be st w geometry = Inr []"
proof -
  let ?scale = "getAdaptiveScale_110 ar be geometry ''sentinel2''"
  let ?vs = "concat (map (\<lambda>tile. reduceToVectors be (cleaned_110 be st w) tile ?scale False (10 ^ 8) 2)
               (tiles_110 ar (num_literal ar 0.2) (bounds be geometry ! 0) (bounds be geometry ! 2)))"
  have "\<forall>f\<in>set ?vs. properties f ''area'' = None"
    using noarea by auto
  then have "filter_gt ''area'' 10000 ?vs = []"
    by (rule filter_gt_absent)
  then show ?thesis
    using bounds_corners [OF b]
    by (simp add: vectorizeWaterMask_110_def Let_def filter_eq_def)
qed

theorem vectorize_110_discards_every_polygon_without_area_witness:
  "intersects (demo_backend water_block) (LineString (ring_of water_block))
     (aoiBoundary_110 exact_arith (initial_state ())
        (Polygon [[(0, 0), (1, 0), (1, 1), (0, 1), (0, 0)]])) 2 \<and>
   vectorizeWaterMask_110 exact_arith (demo_backend water_block) (initial_state ()) []
     (Polygon [[(0, 0), (1, 0), (1, 1), (0, 1), (0, 0)]]) = Inr [] \<and>
   vectorizeWaterMask_200 (demo_backend water_block) (initial_state ()) (Some [])
     (Polygon [[(0, 0), (1, 0), (1, 1), (0, 1), (0, 0)]])
     = Inr [coastal_line [(0, 0), (0.5, 0), (0.5, 0.5), (0, 0.5), (0, 0)]]"
proof -
  let ?be = "demo_backend water_block" and ?st = "initial_state ()"
  let ?g = "Polygon [[(0, 0), (1, 0), (1, 1), (0, 1), (0, 0)]]"
  have ring: "has_outer_ring water_block" "ring_of water_block = [(0, 0), (0.5, 0), (0.5, 0.5), (0, 0.5), (0, 0)]"
    by (simp_all add: has_outer_ring_def ring_of_def outer_ring_def water_block_def)
  have h1: "3 \<le> length (bounds ?be ?g)"
    by (simp add: demo_backend_def)
  have h2: "\<forall>tile. \<forall>f\<in>set (reduceToVectors ?be (cleaned_110 ?be ?st []) tile
                     (getAdaptiveScale_110 exact_arith ?be ?g ''sentinel2'') False (10 ^ 8) 2).
                   properties f ''area'' = None"
    by (simp add: demo_backend_def water_block_def)
  have old: "vectorizeWaterMask_110 exact_arith ?be ?st [] ?g = Inr []"
    using vectorize_110_discards_every_polygon_without_area [OF h1 h2] .
  have h3: "\<forall>f\<in>set (reduceToVectors ?be (cleaned_200 ?be ?st []) ?g 5 True (10 ^ 13) 16).
       has_outer_ring f"
    using ring by (simp add: demo_backend_def)
  have new: "vectorizeWaterMask_200 ?be ?st (Some []) ?g
               = Inr [coastal_line [(0, 0), (0.5, 0), (0.5, 0.5), (0, 0.5), (0, 0)]]"
    using coastal_filter_200_keeps_intersecting_lines [OF h3] ring
    by (simp add: demo_backend_def)
  have "intersects ?be (LineString (ring_of water_block)) (aoiBoundary_110 exact_arith ?st ?g) 2"
    by (simp add: demo_backend_def)
  then show ?thesis
    using old new by simp
qed







section \<open>Properties of the orchestration\<close>

lemma no_scenes_sentinel1:
  assumes "collection_size sv (imageCollection sv ''COPERNICUS/S1_GRD'' (Buffer (aoi st) 500)
             startDate endDate
             [ListContains ''transmitterReceiverPolarisation'' ''VV'',
              ListContains ''transmitterReceiverPolarisation'' ''VH'',
              PropEq ''instrumentMode'' ''IW'']) = 0"
  shows "processSentinel1 sv startDate endDate (st, u) =
           (st, u\<lparr>progressPanel :=
                    [Label (ICONS_warning @ '' No Sentinel-1 images found for the selected period.''),
                     Button ''Change Dates''],
                  statusPanel := (''No images found for the selected period'', True)\<rparr>)"
  using assms
  by (simp add: processSentinel1_def Let_def panel_clear_def panel_add_def updateStatus_def)

lemma no_scenes_sentinel2:
  assumes "collection_size sv (imageCollection sv ''COPERNICUS/S2'' (Buffer (aoi st) 500)
             startDate endDate [PropLt ''CLOUDY_PIXEL_PERCENTAGE'' (cloudCover st)]) = 0"
  shows "processSentinel2 sv startDate endDate (st, u) =
           (st, u\<lparr>progressPanel :=
                    [Label (ICONS_warning @ '' No Sentinel-2 images found within cloud cover limit.''),
                     Button ''Increase Cloud Cover Limit'', Button ''Change Dates''],
                  statusPanel := (''No images found within cloud cover limit'', True)\<rparr>)"
  using assms
  by (simp add: processSentinel2_def Let_def panel_clear_def panel_add_def updateStatus_def)

lemma no_scenes_landsat:
  assumes "collection_size sv (imageCollection sv ''LANDSAT/LC08/C02/T1_L2'' (Buffer (aoi st) 500)
             startDate endDate [PropLt ''CLOUD_COVER'' (cloudCover st)]) = 0"
  shows "processLandsat sv startDate endDate (st, u) =
           (st, u\<lparr>progressPanel :=
                    [Label (ICONS_warning @ '' No Landsat images found within cloud cover limit.''),
                     Button ''Increase Cloud Cover Limit'', Button ''Change Dates''],
                  statusPanel := (''No images found within cloud cover limit'', True)\<rparr>)"
  using assms
  by (simp add: processLandsat_def Let_def panel_clear_def panel_add_def updateStatus_def)

text \<open>
  Claim C7. When the catalog returns no scene for the query of the run (the source of the
  chosen sensor, the widened area, the dates and the sensor's filters), the run leaves the
  state as it was (no raw image, no result stored), adds no map layer, and ends with the
  status flagged as an error and carrying the no-images message. The outcome is the same
  whatever the classifiers, the vectorizer and the clipping steps are: none of them takes
  part. Version 1.0.1 likewise only sets its label.
\<close>

theorem no_imagery_run_fails_without_results:
  assumes zero:
    "method = ''sentinel1'' \<and>
       collection_size sv (imageCollection sv ''COPERNICUS/S1_GRD'' (Buffer (aoi st) 500)
         startDate endDate
         [ListContains ''transmitterReceiverPolarisation'' ''VV'',
          ListContains ''transmitterReceiverPolarisation'' ''VH'',
          PropEq ''instrumentMode'' ''IW'']) = 0 \<or>
     method = ''sentinel2'' \<and>
       collection_size sv (imageCollection sv ''COPERNICUS/S2'' (Buffer (aoi st) 500)
         startDate endDate [PropLt ''CLOUDY_PIXEL_PERCENTAGE'' (cloudCover st)]) = 0 \<or>
     method = ''landsat'' \<and>
       collection_size sv (imageCollection sv ''LANDSAT/LC08/C02/T1_L2'' (Buffer (aoi st) 500)
         startDate endDate [PropLt ''CLOUD_COVER'' (cloudCover st)]) = 0"
  shows "fst (processImagery toUpperCase sv method startDate endDate (st, u)) = st \<and>
         mapLayers (snd (processImagery toUpperCase sv method startDate endDate (st, u)))
           = mapLayers u \<and>
         snd (statusPanel (snd (processImagery toUpperCase sv method startDate endDate (st, u)))) \<and>
         fst (statusPanel (snd (processImagery toUpperCase sv method startDate endDate (st, u))))
           = (if method = ''sentinel1'' then ''No images found for the selected period''
              else ''No images found within cloud cover limit'') \<and>
         processImagery toUpperCase
           (sv\<lparr>detectSAR := c1, detectOptical := c2, detectLandsat := c3, vectorize := v,
               mask_clip := mc, shoreline_clip := sc\<rparr>) method startDate endDate (st, u)
           = processImagery toUpperCase sv method startDate endDate (st, u) \<and>
         (method = ''sentinel1'' \<longrightarrow>
            processSentinel1_101 sv startDate endDate (st, l) =
              (st, l\<lparr>loadingLabel := ''No Sentinel-1 images found.''\<rparr>))"
proof -
  let ?sv = "sv\<lparr>detectSAR := c1, detectOptical := c2, detectLandsat := c3, vectorize := v,
               mask_clip := mc, shoreline_clip := sc\<rparr>"
  have same: "collection_size ?sv = collection_size sv" "imageCollection ?sv = imageCollection sv"
    by simp_all
  from zero show ?thesis
  proof (elim disjE conjE)
    assume m: "method = ''sentinel1''"
      and z: "collection_size sv (imageCollection sv ''COPERNICUS/S1_GRD'' (Buffer (aoi st) 500)
         startDate endDate
         [ListContains ''transmitterReceiverPolarisation'' ''VV'',
          ListContains ''transmitterReceiverPolarisation'' ''VH'',
          PropEq ''instrumentMode'' ''IW'']) = 0"
    have old: "processSentinel1_101 sv startDate endDate (st, l) =
           (st, l\<lparr>loadingLabel := ''No Sentinel-1 images found.''\<rparr>)"
      using z by (simp add: processSentinel1_101_def Let_def)
    show ?thesis
      using z old unfolding m
      by (simp add: processImagery_def Let_def no_scenes_sentinel1 updateStatus_def)
  next
    assume m: "method = ''sentinel2''"
      and z: "collection_size sv (imageCollection sv ''COPERNICUS/S2'' (Buffer (aoi st) 500)
         startDate endDate [PropLt ''CLOUDY_PIXEL_PERCENTAGE'' (cloudCover st)]) = 0"
    show ?thesis
      using z unfolding m
      by (simp add: processImagery_def Let_def no_scenes_sentinel2 updateStatus_def)
  next
    assume m: "method = ''landsat''"
      and z: "collection_size sv (imageCollection sv ''LANDSAT/LC08/C02/T1_L2'' (Buffer (aoi st) 500)
         startDate endDate [PropLt ''CLOUD_COVER'' (cloudCover st)]) = 0"
    show ?thesis
      using z unfolding m
      by (simp add: processImagery_def Let_def no_scenes_landsat updateStatus_def)
  qed
qed

text \<open>
  The witness is a run for Sentinel-1 against a catalog that holds scenes for the other
  sources and none for Sentinel-1.
\<close>

theorem no_imagery_run_fails_without_results_witness:
  "collection_size radar_gap_catalog
     (imageCollection radar_gap_catalog ''COPERNICUS/S2'' (Buffer (aoi fresh_run) 500) () ()
        [PropLt ''CLOUDY_PIXEL_PERCENTAGE'' (cloudCover fresh_run)]) = 3 \<and>
   fst (processImagery id radar_gap_catalog ''sentinel1'' () () (fresh_run, idle_ui)) = fresh_run \<and>
   statusPanel (snd (processImagery id radar_gap_catalog ''sentinel1'' () () (fresh_run, idle_ui)))
     = (''No images found for the selected period'', True) \<and>
   processSentinel1_101 radar_gap_catalog () () (fresh_run, \<lparr>loadingLabel = ''Processing...'', mapLayers_101 = []\<rparr>)
     = (fresh_run, \<lparr>loadingLabel = ''No Sentinel-1 images found.'', mapLayers_101 = []\<rparr>)"
proof -
  let ?l = "\<lparr>loadingLabel = ''Processing...'', mapLayers_101 = []\<rparr>"
  have z: "''sentinel1'' = ''sentinel1'' \<and>
       collection_size radar_gap_catalog
         (imageCollection radar_gap_catalog ''COPERNICUS/S1_GRD'' (Buffer (aoi fresh_run) 500) () ()
         [ListContains ''transmitterReceiverPolarisation'' ''VV'',
          ListContains ''transmitterReceiverPolarisation'' ''VH'',
          PropEq ''instrumentMode'' ''IW'']) = 0 \<or>
     ''sentinel1'' = ''sentinel2'' \<and>
       collection_size radar_gap_catalog
         (imageCollection radar_gap_catalog ''COPERNICUS/S2'' (Buffer (aoi fresh_run) 500) () ()
            [PropLt ''CLOUDY_PIXEL_PERCENTAGE'' (cloudCover fresh_run)]) = 0 \<or>
     ''sentinel1'' = ''landsat'' \<and>
       collection_size radar_gap_catalog
         (imageCollection radar_gap_catalog ''LANDSAT/LC08/C02/T1_L2'' (Buffer (aoi fresh_run) 500) () ()
            [PropLt ''CLOUD_COVER'' (cloudCover fresh_run)]) = 0"
    by (simp add: radar_gap_catalog_def)
  have other: "collection_size radar_gap_catalog
     (imageCollection radar_gap_catalog ''COPERNICUS/S2'' (Buffer (aoi fresh_run) 500) () ()
        [PropLt ''CLOUDY_PIXEL_PERCENTAGE'' (cloudCover fresh_run)]) = 3"
    by (simp add: radar_gap_catalog_def)
  from no_imagery_run_fails_without_results [OF z, of id idle_ui _ _ _ _ _ _ ?l]
  have "fst (processImagery id radar_gap_catalog ''sentinel1'' () () (fresh_run, idle_ui)) = fresh_run"
    and "snd (statusPanel (snd (processImagery id radar_gap_catalog ''sentinel1'' () () (fresh_run, idle_ui))))"
    and "fst (statusPanel (snd (processImagery id radar_gap_catalog ''sentinel1'' () () (fresh_run, idle_ui))))
           = ''No images found for the selected period''"
    and "processSentinel1_101 radar_gap_catalog () () (fresh_run, ?l)
           = (fresh_run, ?l\<lparr>loadingLabel := ''No Sentinel-1 images found.''\<rparr>)"
    by simp_all
  then show ?thesis
    using other by (simp add: prod_eq_iff)
qed

end
